theory Spec2Isabelle
  imports Main "HOL-Library.Monad_Syntax"
begin

section \<open>Strings\<close>

text \<open>
  A JavaScript string is a sequence of UTF-16 code units. The model writes it as a HOL
  \<^typ>\<open>string\<close>, one \<^typ>\<open>char\<close> per code unit, which covers the units 0 to 255;
  \<open>length\<close>, \<open>take\<close> and \<open>drop\<close> count units as \<open>.length\<close> and \<open>.slice\<close> do.
\<close>

definition nl :: string where
  "nl = [CHR 0x0A]"

definition dq :: string where
  "dq = [CHR 0x22]"

text \<open>\<open>String.prototype.trim\<close>: the white space and line terminators among the units 0 to 255.\<close>

definition is_ws :: "char \<Rightarrow> bool" where
  "is_ws c \<longleftrightarrow> c \<in> {CHR 0x09, CHR 0x0A, CHR 0x0B, CHR 0x0C, CHR 0x0D, CHR 0x20, CHR 0xA0}"

definition trim :: "string \<Rightarrow> string" where
  "trim s = rev (dropWhile is_ws (rev (dropWhile is_ws s)))"

text \<open>The separator-joined concatenation that \<open>Array.prototype.join\<close> builds.\<close>

fun join_strs :: "string \<Rightarrow> string list \<Rightarrow> string" where
  "join_strs sep [] = []"
| "join_strs sep [x] = x"
| "join_strs sep (x # y # ys) = x @ sep @ join_strs sep (y # ys)"

definition digit_char :: "nat \<Rightarrow> char" where
  "digit_char n = ''0123456789abcdef'' ! (n mod 16)"

text \<open>The decimal numeral of an array index, as \<open>Object.entries\<close> names the entries of an array.\<close>

fun show_nat :: "nat \<Rightarrow> string" where
  "show_nat n = (if n < 10 then [digit_char n] else show_nat (n div 10) @ [digit_char (n mod 10)])"

declare show_nat.simps [simp del]

text \<open>\<open>QuoteJSONString\<close> of ECMA-262, on the units 0 to 255 (none of which is a surrogate).\<close>

definition json_escape :: "char \<Rightarrow> string" where
  "json_escape c =
     (if c = CHR 0x08 then [CHR 0x5C, CHR ''b'']
      else if c = CHR 0x09 then [CHR 0x5C, CHR ''t'']
      else if c = CHR 0x0A then [CHR 0x5C, CHR ''n'']
      else if c = CHR 0x0C then [CHR 0x5C, CHR ''f'']
      else if c = CHR 0x0D then [CHR 0x5C, CHR ''r'']
      else if c = CHR 0x22 then [CHR 0x5C, CHR 0x22]
      else if c = CHR 0x5C then [CHR 0x5C, CHR 0x5C]
      else if (of_char c :: nat) < 32
        then [CHR 0x5C, CHR ''u'', CHR ''0'', CHR ''0'',
              digit_char (of_char c div 16), digit_char (of_char c mod 16)]
      else [c])"

definition quote :: "string \<Rightarrow> string" where
  "quote s = dq @ concat (map json_escape s) @ dq"

section \<open>JSON payloads and JavaScript values\<close>

text \<open>
  What \<open>res.json()\<close> resolves to. \<open>JObj\<close> lists the own properties of the parsed object in
  enumeration order (its keys are distinct); a property read takes the first binding.
  A JSON number is an IEEE double; its representation \<open>'n\<close> is left open, and the built-ins
  that look inside it are taken from the host (below).
\<close>

datatype 'n json =
    JNull
  | JBool bool
  | JNum 'n
  | JStr string
  | JArr "'n json list"
  | JObj "(string \<times> 'n json) list"

text \<open>
  The value of an expression: a JSON value, \<open>undefined\<close> (a missing property), or a
  built-in function found on a prototype.
\<close>

datatype 'n jsval = Undefined | NativeFn string | J "'n json"

text \<open>
  The host's built-ins whose results the program only passes on:
  whether a number is \<open>+0\<close> or \<open>-0\<close> (the falsy numbers; \<open>JSON.parse\<close> yields no \<open>NaN\<close>),
  whether it is finite, \<open>Number::toString\<close>, the source text that
  \<open>Function.prototype.toString\<close> gives a native function, and \<open>String.prototype.toUpperCase\<close>.
\<close>

record 'n host =
  num_is_zero :: "'n \<Rightarrow> bool"
  num_is_finite :: "'n \<Rightarrow> bool"
  num_to_string :: "'n \<Rightarrow> string"
  fn_to_string :: "string \<Rightarrow> string"
  to_upper_case :: "string \<Rightarrow> string"

text \<open>ToBoolean.\<close>

fun truthy :: "'n host \<Rightarrow> 'n jsval \<Rightarrow> bool" where
  "truthy h Undefined = False"
| "truthy h (NativeFn f) = True"
| "truthy h (J JNull) = False"
| "truthy h (J (JBool b)) = b"
| "truthy h (J (JNum n)) = (\<not> num_is_zero h n)"
| "truthy h (J (JStr s)) = (s \<noteq> [])"
| "truthy h (J (JArr xs)) = True"
| "truthy h (J (JObj kvs)) = True"

fun typeof :: "'n jsval \<Rightarrow> string" where
  "typeof Undefined = ''undefined''"
| "typeof (NativeFn f) = ''function''"
| "typeof (J JNull) = ''object''"
| "typeof (J (JBool b)) = ''boolean''"
| "typeof (J (JNum n)) = ''number''"
| "typeof (J (JStr s)) = ''string''"
| "typeof (J (JArr xs)) = ''object''"
| "typeof (J (JObj kvs)) = ''object''"

text \<open>
  A property read \<open>x.k\<close> on a JSON value, for the keys this program reads. \<open>None\<close> is the
  \<open>TypeError\<close> that a read on \<open>null\<close> throws. An object answers with its own property.
  Of the keys the program reads, none is found on \<open>Object.prototype\<close>, \<open>Array.prototype\<close>,
  \<open>Number.prototype\<close> or \<open>Boolean.prototype\<close>, and exactly one, \<open>link\<close>, is found on
  \<open>String.prototype\<close> (the legacy method \<open>String.prototype.link\<close>).
\<close>

fun get_prop :: "'n json \<Rightarrow> string \<Rightarrow> 'n jsval option" where
  "get_prop JNull k = None"
| "get_prop (JObj kvs) k = Some (case map_of kvs k of None \<Rightarrow> Undefined | Some v \<Rightarrow> J v)"
| "get_prop (JStr s) k = Some (if k = ''link'' then NativeFn ''link'' else Undefined)"
| "get_prop (JBool b) k = Some Undefined"
| "get_prop (JNum n) k = Some Undefined"
| "get_prop (JArr xs) k = Some Undefined"

text \<open>\<open>a || b\<close>, with \<open>b\<close> evaluated only when \<open>a\<close> is falsy; either side may throw.\<close>

definition orM :: "'n host \<Rightarrow> 'n jsval option \<Rightarrow> 'n jsval option \<Rightarrow> 'n jsval option" where
  "orM h a b = (case a of None \<Rightarrow> None | Some x \<Rightarrow> if truthy h x then Some x else b)"

definition or_js :: "'n host \<Rightarrow> 'n jsval \<Rightarrow> 'n jsval \<Rightarrow> 'n jsval" where
  "or_js h a b = (if truthy h a then a else b)"

text \<open>
  ToString of a JSON value, as a template literal, string concatenation, a property key
  and \<open>join\<close> apply it. An array is joined with commas, \<open>null\<close> elements giving the empty
  string. An object goes through \<open>OrdinaryToPrimitive\<close>: an own property \<open>toString\<close> (never
  callable in parsed JSON) hides \<open>Object.prototype.toString\<close>, \<open>valueOf\<close> returns the object
  itself, and a \<open>TypeError\<close> is thrown (\<open>None\<close>); otherwise the text is \<open>[object Object]\<close>.
\<close>

fun to_str :: "'n host \<Rightarrow> 'n json \<Rightarrow> string option" where
  "to_str h JNull = Some ''null''"
| "to_str h (JBool b) = Some (if b then ''true'' else ''false'')"
| "to_str h (JNum n) = Some (num_to_string h n)"
| "to_str h (JStr s) = Some s"
| "to_str h (JArr xs) =
     map_option (join_strs '','')
       (those (map (\<lambda>x. if x = JNull then Some [] else to_str h x) xs))"
| "to_str h (JObj kvs) =
     (if ''toString'' \<in> fst ` set kvs then None else Some ''[object Object]'')"

fun to_string :: "'n host \<Rightarrow> 'n jsval \<Rightarrow> string option" where
  "to_string h Undefined = Some ''undefined''"
| "to_string h (NativeFn f) = Some (fn_to_string h f)"
| "to_string h (J v) = to_str h v"

text \<open>\<open>xs.join(sep)\<close>: \<open>undefined\<close> and \<open>null\<close> elements give the empty string.\<close>

definition join :: "'n host \<Rightarrow> string \<Rightarrow> 'n jsval list \<Rightarrow> string option" where
  "join h sep xs =
     map_option (join_strs sep)
       (those (map (\<lambda>x. if x = Undefined \<or> x = J JNull then Some [] else to_string h x) xs))"

text \<open>
  \<open>JSON.stringify(value, null, gap)\<close> (\<open>SerializeJSONProperty\<close> of ECMA-262) with the
  current indentation \<open>ind\<close>; \<open>gap\<close> is empty for the compact form. A parsed JSON value has
  no callable \<open>toJSON\<close>, and a number that is not finite is written \<open>null\<close>.
\<close>

fun stringify :: "'n host \<Rightarrow> string \<Rightarrow> string \<Rightarrow> 'n json \<Rightarrow> string"
  and stringify_elems :: "'n host \<Rightarrow> string \<Rightarrow> string \<Rightarrow> 'n json list \<Rightarrow> string list"
  and stringify_members :: "'n host \<Rightarrow> string \<Rightarrow> string \<Rightarrow> (string \<times> 'n json) list \<Rightarrow> string list"
where
  "stringify h gap ind JNull = ''null''"
| "stringify h gap ind (JBool b) = (if b then ''true'' else ''false'')"
| "stringify h gap ind (JNum n) = (if num_is_finite h n then num_to_string h n else ''null'')"
| "stringify h gap ind (JStr s) = quote s"
| "stringify h gap ind (JArr xs) =
     (if xs = [] then ''[]''
      else if gap = [] then ''['' @ join_strs '','' (stringify_elems h gap (ind @ gap) xs) @ '']''
      else ''['' @ nl @ ind @ gap
           @ join_strs ('','' @ nl @ ind @ gap) (stringify_elems h gap (ind @ gap) xs)
           @ nl @ ind @ '']'')"
| "stringify h gap ind (JObj kvs) =
     (if kvs = [] then ''{}''
      else if gap = [] then ''{'' @ join_strs '','' (stringify_members h gap (ind @ gap) kvs) @ ''}''
      else ''{'' @ nl @ ind @ gap
           @ join_strs ('','' @ nl @ ind @ gap) (stringify_members h gap (ind @ gap) kvs)
           @ nl @ ind @ ''}'')"
| "stringify_elems h gap ind [] = []"
| "stringify_elems h gap ind (x # xs) = stringify h gap ind x # stringify_elems h gap ind xs"
| "stringify_members h gap ind [] = []"
| "stringify_members h gap ind ((k, v) # kvs) =
     (quote k @ '':'' @ (if gap = [] then [] else '' '') @ stringify h gap ind v)
       # stringify_members h gap ind kvs"

text \<open>\<open>Object.entries(x)\<close> of a truthy JSON value: own enumerable string-keyed properties.\<close>

fun entries :: "'n json \<Rightarrow> (string \<times> 'n json) list" where
  "entries (JObj kvs) = kvs"
| "entries (JArr xs) = map (\<lambda>i. (show_nat i, xs ! i)) [0..<length xs]"
| "entries (JStr s) = map (\<lambda>i. (show_nat i, JStr [s ! i])) [0..<length s]"
| "entries _ = []"

text \<open>\<open>xs.forEach(f)\<close> where the callback updates a captured variable and may throw.\<close>

fun forEach :: "('a \<Rightarrow> 's \<Rightarrow> 's option) \<Rightarrow> 'a list \<Rightarrow> 's \<Rightarrow> 's option" where
  "forEach f [] s = Some s"
| "forEach f (x # xs) s = (case f x s of None \<Rightarrow> None | Some s' \<Rightarrow> forEach f xs s')"

text \<open>A host for evaluating the model: numbers are integers written in decimal.\<close>

definition show_int :: "int \<Rightarrow> string" where
  "show_int i = (if i < 0 then ''-'' @ show_nat (nat (- i)) else show_nat (nat i))"

definition ascii_upper :: "char \<Rightarrow> char" where
  "ascii_upper c =
     (if 97 \<le> (of_char c :: nat) \<and> (of_char c :: nat) \<le> 122 then char_of (of_char c - 32 :: nat) else c)"

definition int_host :: "int host" where
  "int_host = \<lparr> num_is_zero = (\<lambda>n. n = 0), num_is_finite = (\<lambda>n. True),
     num_to_string = show_int,
     fn_to_string = (\<lambda>f. ''function '' @ f @ ''() { [native code] }''),
     to_upper_case = map ascii_upper \<rparr>"

section \<open>The response normalizer\<close>

text \<open>
  \<open>botReply\<close>, tagged by its \<open>type\<close> field. \<open>responses\<close> is the object filled by
  \<open>responses[philosopher] = text\<close>, as a map from property names (the order of its
  properties is not modelled). The \<open>synthesis\<close> of a philosophical response is a value, not
  a string: \<open>data.synthesis || '...'\<close> is stored as it is.
\<close>

datatype exn = Rejection string | TypeError

datatype 'n variant =
    PhilosophicalResponse (reply_philosophers: "'n jsval") (reply_responses: "string \<rightharpoonup> string")
      (reply_synthesis: "'n jsval")
  | SynthesisResponse (reply_philosophers: "'n jsval") (reply_content: string)
  | FormattedResponse (reply_content: string)
  | ErrorResponse (reply_content: string) (reply_error: exn)

text \<open>
  \<open>responses[key] = text\<close> on an ordinary object: the key \<open>__proto__\<close> reaches the setter of
  \<open>Object.prototype\<close>, which ignores a string, and no property is created.
\<close>

definition assign :: "(string \<rightharpoonup> string) \<Rightarrow> string \<Rightarrow> string \<Rightarrow> (string \<rightharpoonup> string)" where
  "assign obj k v = (if k = ''__proto__'' then obj else obj(k \<mapsto> v))"

text \<open>
  Lines 85 to 91, the callback of \<open>step.reasoning_process.forEach\<close>:
  \<^verbatim>\<open>if (typeof rp === 'object') {
    text += `- ${rp.type || rp.step || ''}: ${rp.description || rp.exploration || rp.analysis || rp['sub-step'] || ''}\n`;
  } else { text += `- ${rp}\n`; }\<close>
\<close>

definition format_rp :: "'n host \<Rightarrow> 'n json \<Rightarrow> string \<Rightarrow> string option" where
  "format_rp h rp text =
     (if typeof (J rp) = ''object'' then do {
        a \<leftarrow> orM h (get_prop rp ''type'') (orM h (get_prop rp ''step'') (Some (J (JStr []))));
        sa \<leftarrow> to_string h a;
        b \<leftarrow> orM h (get_prop rp ''description'') (orM h (get_prop rp ''exploration'')
               (orM h (get_prop rp ''analysis'') (orM h (get_prop rp ''sub-step'') (Some (J (JStr []))))));
        sb \<leftarrow> to_string h b;
        Some (text @ ''- '' @ sa @ '': '' @ sb @ nl)
      } else do {
        s \<leftarrow> to_str h rp;
        Some (text @ ''- '' @ s @ nl)
      })"

text \<open>
  The expression shared by lines 95, 97, 98 and 99, inside a template literal:
  \<^verbatim>\<open>Array.isArray(v) ? v.map(x => x.key || x).join('\n') : v || 'None'\<close>
\<close>

definition mapped_section :: "'n host \<Rightarrow> string \<Rightarrow> 'n jsval \<Rightarrow> string option" where
  "mapped_section h key v =
     (case v of
        J (JArr xs) \<Rightarrow> do {
          ys \<leftarrow> those (map (\<lambda>x. orM h (get_prop x key) (Some (J x))) xs);
          join h nl ys
        }
      | _ \<Rightarrow> to_string h (or_js h v (J (JStr ''None''))))"

text \<open>Lines 80 to 101, the callback of \<open>data.reasoning_chain.forEach\<close>.\<close>

definition format_step :: "'n host \<Rightarrow> 'n json \<Rightarrow> (string \<rightharpoonup> string) \<Rightarrow> (string \<rightharpoonup> string) option" where
  "format_step h step responses = do {
     philosopher \<leftarrow> get_prop step ''philosopher'';
     core_insight \<leftarrow> orM h (get_prop step ''core_insight'') (Some (J (JStr ''No insight provided'')));
     s1 \<leftarrow> to_string h core_insight;
     let text = ''**Core Insight**: '' @ s1 @ nl @ nl;
     let text = text @ ''**Reasoning Process**:'' @ nl;
     reasoning_process \<leftarrow> get_prop step ''reasoning_process'';
     text \<leftarrow> (case reasoning_process of
                J (JArr rps) \<Rightarrow> forEach (format_rp h) rps text
              | _ \<Rightarrow> Some (text @ ''- No reasoning process provided'' @ nl));
     metacognitive_awareness \<leftarrow> get_prop step ''metacognitive_awareness'';
     s2 \<leftarrow> mapped_section h ''reflection'' metacognitive_awareness;
     let text = text @ nl @ ''**Metacognitive Awareness**: '' @ s2 @ nl;
     socratic_catalyst \<leftarrow> get_prop step ''socratic_catalyst'';
     s3 \<leftarrow> to_string h (or_js h socratic_catalyst (J (JStr ''None'')));
     let text = text @ ''**Socratic Catalyst**: '' @ s3 @ nl;
     practical_application \<leftarrow> get_prop step ''practical_application'';
     s4 \<leftarrow> mapped_section h ''step'' practical_application;
     let text = text @ ''**Practical Application**: '' @ s4 @ nl;
     connection_to_principles \<leftarrow> get_prop step ''connection_to_principles'';
     s5 \<leftarrow> mapped_section h ''link'' connection_to_principles;
     let text = text @ ''**Connection to Principles**: '' @ s5 @ nl;
     cognitive_stimulation \<leftarrow> get_prop step ''cognitive_stimulation'';
     s6 \<leftarrow> mapped_section h ''exercise'' cognitive_stimulation;
     let text = text @ ''**Cognitive Stimulation**: '' @ s6;
     key \<leftarrow> to_string h philosopher;
     Some (assign responses key text)
   }"

text \<open>
  The item of a bulleted section of the synthesis, for instance line 110:
  \<^verbatim>\<open>ki.most_important_discovery || ki.unexamined_life_is_not_worth_living || ki || 'No insight provided'\<close>
  The alternate keys are tried in order, then the entry itself, then the placeholder.
\<close>

definition alternatives :: "'n host \<Rightarrow> string list \<Rightarrow> string \<Rightarrow> 'n json \<Rightarrow> 'n jsval option" where
  "alternatives h keys placeholder item =
     foldr (\<lambda>k rest. orM h (get_prop item k) rest) keys
       (Some (or_js h (J item) (J (JStr placeholder))))"

text \<open>
  A bulleted section, for instance lines 108 to 114:
  \<^verbatim>\<open>if (Array.isArray(v)) { v.forEach((ki) => { synthesisText += `- ${...}\n`; }); }
  else { synthesisText += "- No key insights provided\n"; }\<close>
\<close>

definition bullet :: "'n host \<Rightarrow> string list \<Rightarrow> string \<Rightarrow> 'n json \<Rightarrow> string \<Rightarrow> string option" where
  "bullet h keys placeholder item text = do {
     a \<leftarrow> alternatives h keys placeholder item;
     s \<leftarrow> to_string h a;
     Some (text @ ''- '' @ s @ nl)
   }"

definition bullets :: "'n host \<Rightarrow> string list \<Rightarrow> string \<Rightarrow> string \<Rightarrow> 'n jsval \<Rightarrow> string \<Rightarrow> string option" where
  "bullets h keys placeholder missing v text =
     (case v of
        J (JArr items) \<Rightarrow> forEach (bullet h keys placeholder) items text
      | _ \<Rightarrow> Some (text @ missing @ nl))"

text \<open>
  Lines 177 and 188: \<^verbatim>\<open>Array.isArray(v) ? v.join('\n') : v || 'None'\<close>, then concatenated
  to a string.
\<close>

definition joined_section :: "'n host \<Rightarrow> 'n jsval \<Rightarrow> string option" where
  "joined_section h v =
     (case v of
        J (JArr xs) \<Rightarrow> join h nl (map J xs)
      | _ \<Rightarrow> to_string h (or_js h v (J (JStr ''None''))))"

text \<open>Lines 124 to 135.\<close>

definition metacognitive_enhancement_section :: "'n host \<Rightarrow> 'n jsval \<Rightarrow> string \<Rightarrow> string option" where
  "metacognitive_enhancement_section h v text =
     (case v of
        J (JArr items) \<Rightarrow>
          forEach (bullet h [''reflection'', ''self-awareness''] ''No enhancement provided'') items text
      | J (JStr s) \<Rightarrow> Some (text @ ''- '' @ s @ nl)
      | J (JObj kvs) \<Rightarrow> Some (text @ ''- '' @ stringify h [] [] (JObj kvs) @ nl)
      | _ \<Rightarrow> Some (text @ ''- No metacognitive enhancement provided'' @ nl))"

text \<open>
  Lines 179 to 185:
  \<^verbatim>\<open>Object.entries(v).forEach(([key, value]) => {
    synthesisText += `- ${key.charAt(0).toUpperCase() + key.slice(1)}: ${value}\n`; });\<close>
\<close>

definition dialectical_challenge :: "'n host \<Rightarrow> string \<times> 'n json \<Rightarrow> string \<Rightarrow> string option" where
  "dialectical_challenge h kv text = do {
     s \<leftarrow> to_str h (snd kv);
     Some (text @ ''- '' @ to_upper_case h (take 1 (fst kv)) @ drop 1 (fst kv) @ '': '' @ s @ nl)
   }"

definition dialectical_challenges_section :: "'n host \<Rightarrow> 'n jsval \<Rightarrow> string \<Rightarrow> string option" where
  "dialectical_challenges_section h v text =
     (if truthy h v then
        (case v of
           J x \<Rightarrow> forEach (dialectical_challenge h) (entries x) text
         | _ \<Rightarrow> Some text)
      else Some (text @ ''- No dialectical challenges provided'' @ nl))"

text \<open>Lines 105 to 188, the branch \<open>typeof data.synthesis === 'object'\<close>.\<close>

definition format_synthesis :: "'n host \<Rightarrow> 'n json \<Rightarrow> string option" where
  "format_synthesis h syn = do {
     integrated_wisdom \<leftarrow> get_prop syn ''integrated_wisdom'';
     unified \<leftarrow> (case integrated_wisdom of
                   J x \<Rightarrow> (if x = JNull then Some Undefined
                            else get_prop x ''unified_insight_combining_all_perspectives'')
                 | _ \<Rightarrow> Some Undefined);
     s1 \<leftarrow> to_string h (or_js h unified
             (or_js h integrated_wisdom (J (JStr ''No unified insight provided''))));
     let text = ''**Integrated Wisdom**: '' @ s1 @ nl @ nl;
     let text = text @ ''**Key Insights**:'' @ nl;
     key_insights \<leftarrow> get_prop syn ''key_insights'';
     text \<leftarrow> bullets h [''most_important_discovery'', ''unexamined_life_is_not_worth_living'']
               ''No insight provided'' ''- No key insights provided'' key_insights text;
     let text = text @ nl @ ''**Practical Steps**:'' @ nl;
     practical_steps \<leftarrow> get_prop syn ''practical_steps'';
     text \<leftarrow> bullets h [''step_1'', ''step_2'', ''step_3'', ''step'']
               ''No step provided'' ''- No practical steps provided'' practical_steps text;
     let text = text @ nl @ ''**Metacognitive Enhancement**:'' @ nl;
     metacognitiveEnhancement \<leftarrow> get_prop syn ''metacognitive_enhancement'';
     text \<leftarrow> metacognitive_enhancement_section h metacognitiveEnhancement text;
     let text = text @ nl @ ''**Reasoning Quality Assessment**:'' @ nl;
     reasoning_quality_assessment \<leftarrow> get_prop syn ''reasoning_quality_assessment'';
     text \<leftarrow> bullets h [''evaluation_of_reasoning_process'']
               ''No assessment provided'' ''- No reasoning quality assessment provided''
               reasoning_quality_assessment text;
     let text = text @ nl @ ''**Cognitive Bridges**:'' @ nl;
     cognitive_bridges \<leftarrow> get_prop syn ''cognitive_bridges'';
     text \<leftarrow> bullets h [''connection_between_different_thinking_modes'']
               ''No bridge provided'' ''- No cognitive bridges provided'' cognitive_bridges text;
     let text = text @ nl @ ''**Transformative Elements**:'' @ nl;
     transformative_elements \<leftarrow> get_prop syn ''transformative_elements'';
     text \<leftarrow> bullets h [''aspect_that_could_change_user_perspective'',
                 ''shift_in_focusing_on_what_you_can_control'']
               ''No element provided'' ''- No transformative elements provided''
               transformative_elements text;
     let text = text @ nl @ ''**Application Scenarios**:'' @ nl;
     application_scenarios \<leftarrow> get_prop syn ''application_scenarios'';
     text \<leftarrow> bullets h [''where_this_wisdom_applies'']
               ''No scenario provided'' ''- No application scenarios provided''
               application_scenarios text;
     let text = text @ nl @ ''**Deepening Questions**:'' @ nl;
     deepening_questions \<leftarrow> get_prop syn ''deepening_questions'';
     text \<leftarrow> bullets h [''questions_for_continued_exporation'']
               ''No question provided'' ''- No deepening questions provided''
               deepening_questions text;
     let text = text @ nl @ ''**Metacognitive Prompts**:'' @ nl;
     metacognitive_prompts \<leftarrow> get_prop syn ''metacognitive_prompts'';
     s2 \<leftarrow> joined_section h metacognitive_prompts;
     let text = text @ s2 @ nl;
     let text = text @ nl @ ''**Dialectical Challenges**:'' @ nl;
     dialectical_challenges \<leftarrow> get_prop syn ''dialectical_challenges'';
     text \<leftarrow> dialectical_challenges_section h dialectical_challenges text;
     synthesis_quality_score \<leftarrow> get_prop syn ''synthesis_quality_score'';
     s3 \<leftarrow> to_string h (or_js h synthesis_quality_score (J (JStr ''Not provided'')));
     let text = text @ nl @ ''**Synthesis Quality Score**: '' @ s3 @ nl;
     let text = text @ ''**Cognitive Enhancement Elements**:'' @ nl;
     cognitive_enhancement_elements \<leftarrow> get_prop syn ''cognitive_enhancement_elements'';
     s4 \<leftarrow> joined_section h cognitive_enhancement_elements;
     Some (text @ s4)
   }"

text \<open>
  Lines 77 to 198, the branch taken when \<open>data.reasoning_chain && data.synthesis\<close> is truthy.
  \<open>data.reasoning_chain.forEach\<close> is a function only when the value is an array; calling
  what any other truthy JSON value answers (\<open>undefined\<close>, or an own property \<open>forEach\<close>,
  which is not callable) throws a \<open>TypeError\<close>.
\<close>

definition philosophical :: "'n host \<Rightarrow> 'n json \<Rightarrow> 'n jsval \<Rightarrow> 'n jsval \<Rightarrow> 'n variant option" where
  "philosophical h data reasoning_chain synthesis = do {
     responses \<leftarrow> (case reasoning_chain of
                     J (JArr steps) \<Rightarrow> forEach (format_step h) steps Map.empty
                   | _ \<Rightarrow> None);
     synthesisText \<leftarrow> (if typeof synthesis = ''object''
                        then (case synthesis of
                                J syn \<Rightarrow> map_option (\<lambda>s. J (JStr s)) (format_synthesis h syn)
                              | _ \<Rightarrow> None)
                        else Some (or_js h synthesis (J (JStr ''No synthesis provided''))));
     philosophers_consulted \<leftarrow> get_prop data ''philosophers_consulted'';
     Some (PhilosophicalResponse philosophers_consulted responses synthesisText)
   }"

text \<open>
  Lines 76 to 210: the classification of the parsed body. \<open>None\<close> is a \<open>TypeError\<close> thrown
  inside the \<open>try\<close> block. Both properties are read first: a read of a property of \<open>data\<close>
  has no effect, and throws exactly when \<open>data\<close> is \<open>null\<close>, whatever the key.
\<close>

definition classify :: "'n host \<Rightarrow> 'n json \<Rightarrow> 'n variant option" where
  "classify h data = do {
     reasoning_chain \<leftarrow> get_prop data ''reasoning_chain'';
     synthesis \<leftarrow> get_prop data ''synthesis'';
     if truthy h reasoning_chain \<and> truthy h synthesis then
       philosophical h data reasoning_chain synthesis
     else (case synthesis of
             J (JStr s) \<Rightarrow> do {
               philosophers \<leftarrow> get_prop data ''philosophers'';
               Some (SynthesisResponse
                      (or_js h philosophers (J (JArr [JStr ''Ancient Philosophers'']))) s)
             }
           | _ \<Rightarrow> Some (FormattedResponse (stringify h ''  '' [] data)))
   }"

section \<open>The stage catalog\<close>

datatype status = Pending | Thinking | Completed

record stage =
  stage_id :: nat
  title :: string
  description :: string
  status :: status

text \<open>Lines 20 to 33. \<open>Thinking\<close> is the status the specification calls Active.\<close>

definition simulateThinkingSteps :: "string \<Rightarrow> stage list" where
  "simulateThinkingSteps query =
     [\<lparr>stage_id = 1, title = ''Analyzing query'',
        description = ''Parsing: '' @ dq @ take 50 query @ (if length query > 50 then ''...'' else []) @ dq,
        status = Thinking\<rparr>,
      \<lparr>stage_id = 2, title = ''Identifying themes'',
        description = ''Detecting philosophical dimensions and core concepts'', status = Pending\<rparr>,
      \<lparr>stage_id = 3, title = ''Selecting philosophers'',
        description = ''Choosing the most relevant ancient wisdom traditions'', status = Pending\<rparr>,
      \<lparr>stage_id = 4, title = ''Consulting Socrates'',
        description = ''Applying Socratic questioning and epistemic inquiry'', status = Pending\<rparr>,
      \<lparr>stage_id = 5, title = ''Consulting Marcus Aurelius'',
        description = ''Drawing on Stoic principles and practical wisdom'', status = Pending\<rparr>,
      \<lparr>stage_id = 6, title = ''Consulting Lao Tzu'',
        description = ''Integrating Daoist flow and natural harmony'', status = Pending\<rparr>,
      \<lparr>stage_id = 7, title = ''Consulting Aristotle'',
        description = ''Applying systematic analysis and virtue ethics'', status = Pending\<rparr>,
      \<lparr>stage_id = 8, title = ''Cross-referencing wisdom'',
        description = ''Finding convergences and complementary insights'', status = Pending\<rparr>,
      \<lparr>stage_id = 9, title = ''Synthesizing response'',
        description = ''Weaving together multiple philosophical perspectives'', status = Pending\<rparr>]"

section \<open>The request lifecycle\<close>

datatype sender = User | Bot

text \<open>The \<open>text\<close> field of a message: the query of a user message, the \<open>botReply\<close> of a bot message.\<close>

datatype 'n payload = Query string | Reply "'n variant"

record 'n message =
  sender :: sender
  text_payload :: "'n payload"
  timestamp :: nat

text \<open>The component's state, lines 5 to 9.\<close>

record 'n state =
  query :: string
  messages :: "'n message list"
  loading :: bool
  thinkingSteps :: "stage list"
  typingMessage :: "nat option"

text \<open>
  What the awaited network exchange gives back: \<open>fetch\<close> or \<open>res.json()\<close> rejects with an
  error of some message, or \<open>res.json()\<close> resolves to a parsed body.
\<close>

datatype 'n outcome = Rejected string | Parsed "'n json"

text \<open>The three readings of the clock (\<open>new Date()\<close>) of one submission.\<close>

record clock =
  at_submit :: nat
  at_typing :: nat
  at_reply :: nat

text \<open>
  The statements that \<open>handleSubmit\<close> executes, in program order. It is an \<open>async\<close>
  function: at an \<open>await\<close> it is suspended until the awaited promise settles, so a statement
  after an \<open>await\<close> runs after the awaited timer or request has completed.
  \<open>AwaitFetch\<close> is the call of \<open>fetch\<close> (with the request body) and the two awaits on it.
\<close>

datatype 'n action =
    AppendMessage "'n message"
  | SetQuery string
  | SetLoading bool
  | SetThinkingSteps "stage list"
  | AwaitTimeout nat
  | UpdateThinkingStep nat status
  | SetTypingMessage "nat option"
  | AwaitFetch string string

text \<open>The state setters; \<open>updateThinkingStep\<close> is lines 35 to 41.\<close>

fun exec :: "'n state \<Rightarrow> 'n action \<Rightarrow> 'n state" where
  "exec s (AppendMessage m) = s\<lparr>messages := messages s @ [m]\<rparr>"
| "exec s (SetQuery q) = s\<lparr>query := q\<rparr>"
| "exec s (SetLoading b) = s\<lparr>loading := b\<rparr>"
| "exec s (SetThinkingSteps steps) = s\<lparr>thinkingSteps := steps\<rparr>"
| "exec s (AwaitTimeout ms) = s"
| "exec s (UpdateThinkingStep stepId st) =
     s\<lparr>thinkingSteps := map (\<lambda>step. if stage_id step = stepId then step\<lparr>status := st\<rparr> else step)
                            (thinkingSteps s)\<rparr>"
| "exec s (SetTypingMessage t) = s\<lparr>typingMessage := t\<rparr>"
| "exec s (AwaitFetch url body) = s"

definition run :: "'n action list \<Rightarrow> 'n state \<Rightarrow> 'n state" where
  "run acts s = foldl exec s acts"

text \<open>
  Lines 57 to 63, the body of the loop at index \<open>i\<close>. The test \<open>i < steps.length - 1\<close> is
  written \<open>i + 1 < length steps\<close>, since the subtraction of natural numbers truncates.
\<close>

definition stage_iteration :: "stage list \<Rightarrow> nat \<Rightarrow> 'n action list" where
  "stage_iteration steps i =
     [AwaitTimeout 800, UpdateThinkingStep (stage_id (steps ! i)) Completed]
     @ (if i + 1 < length steps then [UpdateThinkingStep (stage_id (steps ! (i + 1))) Thinking] else [])"

text \<open>Lines 215 to 225, the \<open>catch\<close> block; \<open>apology\<close> is the string literal of line 218.\<close>

definition apology :: string where
  "apology = ''I apologize, but I'' @ [CHR 0x27] @ ''m having trouble connecting right now. ''
     @ ''Please try again in a moment.''"

definition catch_block :: "clock \<Rightarrow> exn \<Rightarrow> 'n action list" where
  "catch_block c e =
     [AppendMessage \<lparr>sender = Bot, text_payload = Reply (ErrorResponse apology e),
        timestamp = at_reply c\<rparr>,
      SetThinkingSteps []]"

text \<open>Lines 43 to 230.\<close>

definition handleSubmit :: "'n host \<Rightarrow> 'n state \<Rightarrow> clock \<Rightarrow> 'n outcome \<Rightarrow> 'n action list" where
  "handleSubmit h s c out =
     (if trim (query s) = [] then []
      else
        (let currentQuery = query s;
             steps = simulateThinkingSteps currentQuery
         in [AppendMessage \<lparr>sender = User, text_payload = Query (query s), timestamp = at_submit c\<rparr>,
             SetQuery [],
             SetLoading True,
             SetThinkingSteps steps]
            @ concat (map (stage_iteration steps) [0..<length steps])
            @ [SetTypingMessage (Some (at_typing c)),
               AwaitFetch ''http://localhost:8000/ask''
                 (stringify h [] [] (JObj [(''text'', JStr currentQuery)]))]
            @ (case out of
                 Rejected msg \<Rightarrow> catch_block c (Rejection msg)
               | Parsed data \<Rightarrow>
                   (case classify h data of
                      None \<Rightarrow> catch_block c TypeError
                    | Some botReply \<Rightarrow>
                        [AppendMessage \<lparr>sender = Bot, text_payload = Reply botReply, timestamp = at_reply c\<rparr>,
                         SetThinkingSteps []]))
            @ [SetLoading False, SetTypingMessage None]))"

text \<open>
  Lines 260 and 307, the line that names the philosophers when a reply is displayed:
  \<^verbatim>\<open>philosophers?.join(", ") || "Multiple philosophers"\<close>
  (with \<open>"Ancient Philosophers"\<close> for a synthesis response). Calling \<open>join\<close> on a value that
  is neither nullish nor an array throws.
\<close>

definition consulted :: "'n host \<Rightarrow> 'n jsval \<Rightarrow> string \<Rightarrow> string option" where
  "consulted h philosophers fallback =
     (case philosophers of
        Undefined \<Rightarrow> Some fallback
      | J JNull \<Rightarrow> Some fallback
      | J (JArr xs) \<Rightarrow> map_option (\<lambda>s. if s = [] then fallback else s) (join h '', '' (map J xs))
      | _ \<Rightarrow> None)"

section \<open>Notions used to state the properties\<close>

text \<open>
  The specification's wording of the preview in the first stage: the query truncated to
  50 characters, with an ellipsis appended exactly when the query is longer.
\<close>

definition preview :: "string \<Rightarrow> string" where
  "preview q = (if length q \<le> 50 then q else take 50 q @ ''...'')"

text \<open>
  The reply carried by the bot message of one submission: the classifier's variant, or the
  error variant of the \<open>catch\<close> block when the request or the classifier throws.
\<close>

definition bot_reply :: "'n host \<Rightarrow> 'n outcome \<Rightarrow> 'n variant" where
  "bot_reply h out =
     (case out of
        Rejected msg \<Rightarrow> ErrorResponse apology (Rejection msg)
      | Parsed data \<Rightarrow>
          (case classify h data of None \<Rightarrow> ErrorResponse apology TypeError | Some v \<Rightarrow> v))"

text \<open>The call of \<open>fetch\<close>; the timer waits and stage transitions of the progress simulation.\<close>

fun is_fetch :: "'n action \<Rightarrow> bool" where
  "is_fetch (AwaitFetch url body) = True"
| "is_fetch _ = False"

fun is_stage_action :: "'n action \<Rightarrow> bool" where
  "is_stage_action (AwaitTimeout ms) = True"
| "is_stage_action (UpdateThinkingStep i st) = True"
| "is_stage_action _ = False"

text \<open>
  The specification's wording of the concurrency of simulator and request: the request is
  in flight while stage transitions are still pending, that is, some timer wait or stage
  transition comes after the call of \<open>fetch\<close>.
\<close>

definition stages_pending_after_fetch :: "'n action list \<Rightarrow> bool" where
  "stages_pending_after_fetch acts = list_ex is_stage_action (dropWhile (\<lambda>a. \<not> is_fetch a) acts)"

text \<open>An object without its property \<open>k\<close>.\<close>

definition without :: "string \<Rightarrow> (string \<times> 'a) list \<Rightarrow> (string \<times> 'a) list" where
  "without k kvs = filter (\<lambda>kv. fst kv \<noteq> k) kvs"

text \<open>The section fields of a perspective entry and of a structured synthesis.\<close>

definition step_sections :: "string list" where
  "step_sections = [''core_insight'', ''reasoning_process'', ''metacognitive_awareness'',
     ''socratic_catalyst'', ''practical_application'', ''connection_to_principles'',
     ''cognitive_stimulation'']"

definition synthesis_sections :: "string list" where
  "synthesis_sections = [''integrated_wisdom'', ''key_insights'', ''practical_steps'',
     ''metacognitive_enhancement'', ''reasoning_quality_assessment'', ''cognitive_bridges'',
     ''transformative_elements'', ''application_scenarios'', ''deepening_questions'',
     ''metacognitive_prompts'', ''dialectical_challenges'', ''synthesis_quality_score'',
     ''cognitive_enhancement_elements'']"

text \<open>
  Payloads on which no formatting step throws: no array has a \<open>null\<close> element and no
  object has a property named \<open>toString\<close>.
\<close>

fun tame :: "'n json \<Rightarrow> bool" where
  "tame (JArr xs) = list_all (\<lambda>x. x \<noteq> JNull \<and> tame x) xs"
| "tame (JObj kvs) = (''toString'' \<notin> fst ` set kvs \<and> list_all (\<lambda>kv. tame (snd kv)) kvs)"
| "tame _ = True"

fun tame_value :: "'n jsval \<Rightarrow> bool" where
  "tame_value (J v) = tame v"
| "tame_value _ = True"

text \<open>Concrete inputs.\<close>

definition idle_state :: "string \<Rightarrow> int state" where
  "idle_state q = \<lparr>query = q, messages = [], loading = False, thinkingSteps = [], typingMessage = None\<rparr>"

definition clock0 :: clock where
  "clock0 = \<lparr>at_submit = 0, at_typing = 1, at_reply = 2\<rparr>"

definition scenario_a :: "int json" where
  "scenario_a = JObj [(''synthesis'', JStr ''Know thyself.'')]"

definition scenario_b :: "int json" where
  "scenario_b = JObj
     [(''reasoning_chain'', JArr [JObj [(''philosopher'', JStr ''Socrates''),
                                        (''core_insight'', JStr ''Question everything'')]]),
      (''synthesis'', JObj [(''integrated_wisdom'', JStr ''Seek the good'')])]"

definition scenario_d :: "int json" where
  "scenario_d = JObj [(''answer'', JNum 42), (''ok'', JArr [JBool True, JNull])]"

text \<open>Payloads with a \<open>null\<close> among the perspectives, or in a reasoning process.\<close>

definition null_step_payload :: "'n json" where
  "null_step_payload = JObj [(''reasoning_chain'', JArr [JNull]), (''synthesis'', JStr ''Know thyself.'')]"

definition null_item_payload :: "'n json" where
  "null_item_payload = JObj
     [(''reasoning_chain'', JArr [JObj [(''philosopher'', JStr ''Socrates''),
                                        (''reasoning_process'', JArr [JStr ''Define virtue'', JNull])]]),
      (''synthesis'', JStr ''Know thyself.'')]"

section \<open>The stage catalog and the empty submission\<close>

lemma trim_empty_iff: "trim q = [] \<longleftrightarrow> list_all is_ws q"
proof -
  have "dropWhile is_ws (rev (dropWhile is_ws q)) = [] \<longleftrightarrow> dropWhile is_ws q = []"
  proof
    assume a: "dropWhile is_ws (rev (dropWhile is_ws q)) = []"
    show "dropWhile is_ws q = []"
    proof (rule ccontr)
      assume n: "dropWhile is_ws q \<noteq> []"
      then have "\<not> is_ws (hd (dropWhile is_ws q))" by (rule hd_dropWhile)
      moreover have "hd (dropWhile is_ws q) \<in> set (rev (dropWhile is_ws q))" using n by simp
      ultimately show False using a by (auto simp: dropWhile_eq_Nil_conv)
    qed
  next
    assume b: "dropWhile is_ws q = []"
    show "dropWhile is_ws (rev (dropWhile is_ws q)) = []" unfolding b by simp
  qed
  then show ?thesis
    by (simp add: trim_def dropWhile_eq_Nil_conv list_all_iff)
qed

text \<open>
  C8. The catalog has nine stages with the identifiers 1 to 9 in order; the first is
  \<open>Thinking\<close> (Active) and the other eight are \<open>Pending\<close>; the description of the first
  stage quotes the preview of the query (at most 50 characters, then an ellipsis exactly
  when the query is longer); and the catalog of a query is the catalog of any other query
  with that one description replaced, so nothing else depends on the query.
\<close>

theorem catalog_fixed_up_to_preview:
  "length (simulateThinkingSteps q) = 9
   \<and> map stage_id (simulateThinkingSteps q) = [1, 2, 3, 4, 5, 6, 7, 8, 9]
   \<and> map status (simulateThinkingSteps q) = Thinking # replicate 8 Pending
   \<and> description (hd (simulateThinkingSteps q)) = ''Parsing: '' @ dq @ preview q @ dq
   \<and> simulateThinkingSteps q =
       (hd (simulateThinkingSteps q')) \<lparr>description := ''Parsing: '' @ dq @ preview q @ dq\<rparr>
         # tl (simulateThinkingSteps q')"
  by (simp add: simulateThinkingSteps_def preview_def numeral_eq_Suc)

text \<open>
  C7. When the query is empty or consists of white space only, \<open>handleSubmit\<close> executes
  no statement after the test of line 45, and the state (message list, input buffer,
  loading flag, thinking steps, typing indicator) is the state it started from.
\<close>

theorem blank_submit_is_noop:
  "list_all is_ws (query s) \<Longrightarrow> handleSubmit h s c out = [] \<and> run (handleSubmit h s c out) s = s"
  by (simp add: handleSubmit_def run_def trim_empty_iff)

text \<open>C7 at the query of two spaces and a tab, in the idle state with no messages.\<close>

theorem blank_submit_is_noop_witness:
  "list_all is_ws (query (idle_state [CHR 0x20, CHR 0x20, CHR 0x09]))
   \<and> handleSubmit int_host (idle_state [CHR 0x20, CHR 0x20, CHR 0x09]) clock0 (Parsed scenario_a) = []
   \<and> run (handleSubmit int_host (idle_state [CHR 0x20, CHR 0x20, CHR 0x09]) clock0 (Parsed scenario_a))
         (idle_state [CHR 0x20, CHR 0x20, CHR 0x09])
       = idle_state [CHR 0x20, CHR 0x20, CHR 0x09]"
  using blank_submit_is_noop [of "idle_state [CHR 0x20, CHR 0x20, CHR 0x09]" int_host clock0 "Parsed scenario_a"]
  by (simp add: idle_state_def is_ws_def run_def)

section \<open>The request lifecycle\<close>

lemma upt9: "[0..<9] = [0, 1, 2, 3, 4, 5, 6, 7, 8]"
  by (simp add: upt_conv_Cons)

lemma length_catalog: "length (simulateThinkingSteps q) = 9"
  by (simp add: simulateThinkingSteps_def)

lemma stage_loop_unfolded:
  "(concat (map (stage_iteration (simulateThinkingSteps q)) [0..<9]) :: 'n action list) =
     [AwaitTimeout 800, UpdateThinkingStep 1 Completed, UpdateThinkingStep 2 Thinking,
      AwaitTimeout 800, UpdateThinkingStep 2 Completed, UpdateThinkingStep 3 Thinking,
      AwaitTimeout 800, UpdateThinkingStep 3 Completed, UpdateThinkingStep 4 Thinking,
      AwaitTimeout 800, UpdateThinkingStep 4 Completed, UpdateThinkingStep 5 Thinking,
      AwaitTimeout 800, UpdateThinkingStep 5 Completed, UpdateThinkingStep 6 Thinking,
      AwaitTimeout 800, UpdateThinkingStep 6 Completed, UpdateThinkingStep 7 Thinking,
      AwaitTimeout 800, UpdateThinkingStep 7 Completed, UpdateThinkingStep 8 Thinking,
      AwaitTimeout 800, UpdateThinkingStep 8 Completed, UpdateThinkingStep 9 Thinking,
      AwaitTimeout 800, UpdateThinkingStep 9 Completed]"
  by (simp add: upt9 stage_iteration_def simulateThinkingSteps_def)

lemma tail_actions:
  "(case out of
      Rejected msg \<Rightarrow> catch_block c (Rejection msg)
    | Parsed data \<Rightarrow>
        (case classify h data of
           None \<Rightarrow> catch_block c TypeError
         | Some botReply \<Rightarrow>
             [AppendMessage \<lparr>sender = Bot, text_payload = Reply botReply, timestamp = at_reply c\<rparr>,
              SetThinkingSteps []]))
   = [AppendMessage \<lparr>sender = Bot, text_payload = Reply (bot_reply h out), timestamp = at_reply c\<rparr>,
      SetThinkingSteps []]"
  by (simp add: bot_reply_def catch_block_def split: outcome.splits option.splits)

text \<open>The statements of one submission of a query that is not blank, written out.\<close>

lemma handleSubmit_unfolded:
  assumes "\<not> list_all is_ws (query s)"
  shows "handleSubmit h s c out =
     [AppendMessage \<lparr>sender = User, text_payload = Query (query s), timestamp = at_submit c\<rparr>,
      SetQuery [], SetLoading True, SetThinkingSteps (simulateThinkingSteps (query s)),
      AwaitTimeout 800, UpdateThinkingStep 1 Completed, UpdateThinkingStep 2 Thinking,
      AwaitTimeout 800, UpdateThinkingStep 2 Completed, UpdateThinkingStep 3 Thinking,
      AwaitTimeout 800, UpdateThinkingStep 3 Completed, UpdateThinkingStep 4 Thinking,
      AwaitTimeout 800, UpdateThinkingStep 4 Completed, UpdateThinkingStep 5 Thinking,
      AwaitTimeout 800, UpdateThinkingStep 5 Completed, UpdateThinkingStep 6 Thinking,
      AwaitTimeout 800, UpdateThinkingStep 6 Completed, UpdateThinkingStep 7 Thinking,
      AwaitTimeout 800, UpdateThinkingStep 7 Completed, UpdateThinkingStep 8 Thinking,
      AwaitTimeout 800, UpdateThinkingStep 8 Completed, UpdateThinkingStep 9 Thinking,
      AwaitTimeout 800, UpdateThinkingStep 9 Completed,
      SetTypingMessage (Some (at_typing c)),
      AwaitFetch ''http://localhost:8000/ask'' (stringify h [] [] (JObj [(''text'', JStr (query s))])),
      AppendMessage \<lparr>sender = Bot, text_payload = Reply (bot_reply h out), timestamp = at_reply c\<rparr>,
      SetThinkingSteps [], SetLoading False, SetTypingMessage None]"
proof -
  have "trim (query s) \<noteq> []"
    using assms by (simp add: trim_empty_iff)
  then show ?thesis
    by (simp add: handleSubmit_def Let_def tail_actions length_catalog stage_loop_unfolded)
qed

text \<open>
  C5. A submission of a query that is not blank, whatever the network exchange gives back
  (a rejection, or a parsed body of any shape), ends in a state whose message list is the
  old one followed by the user message and exactly one bot message, whose thinking steps
  are cleared, whose loading flag is false and whose typing indicator is off. The bot
  message carries the classifier's
  variant, or the error variant when the request or the classifier throws.
\<close>

theorem submit_appends_one_bot_message:
  assumes "\<not> list_all is_ws (query s)"
  shows "messages (run (handleSubmit h s c out) s) =
           messages s @ [\<lparr>sender = User, text_payload = Query (query s), timestamp = at_submit c\<rparr>,
                         \<lparr>sender = Bot, text_payload = Reply (bot_reply h out), timestamp = at_reply c\<rparr>]
         \<and> thinkingSteps (run (handleSubmit h s c out) s) = []
         \<and> loading (run (handleSubmit h s c out) s) = False
         \<and> typingMessage (run (handleSubmit h s c out) s) = None"
  unfolding handleSubmit_unfolded [OF assms] by (simp add: run_def)

text \<open>C5 at the query \<open>What is virtue?\<close> when the request is rejected.\<close>

theorem submit_appends_one_bot_message_witness:
  "\<not> list_all is_ws (query (idle_state ''What is virtue?''))
   \<and> messages (run (handleSubmit int_host (idle_state ''What is virtue?'') clock0 (Rejected ''Failed to fetch''))
        (idle_state ''What is virtue?'')) =
       [\<lparr>sender = User, text_payload = Query ''What is virtue?'', timestamp = 0\<rparr>,
        \<lparr>sender = Bot, text_payload = Reply (ErrorResponse apology (Rejection ''Failed to fetch'')),
           timestamp = 2\<rparr>]
   \<and> thinkingSteps (run (handleSubmit int_host (idle_state ''What is virtue?'') clock0 (Rejected ''Failed to fetch''))
        (idle_state ''What is virtue?'')) = []
   \<and> loading (run (handleSubmit int_host (idle_state ''What is virtue?'') clock0 (Rejected ''Failed to fetch''))
        (idle_state ''What is virtue?'')) = False"
  using submit_appends_one_bot_message
    [of "idle_state ''What is virtue?''" int_host clock0 "Rejected ''Failed to fetch''"]
  by (simp add: idle_state_def clock0_def is_ws_def bot_reply_def)

text \<open>
  C4, as the specification words it, fails: in the submission of \<open>What is virtue?\<close> the call
  of \<open>fetch\<close> is made, and no timer wait or stage transition comes after it.
\<close>

theorem fetch_not_concurrent_counterexample:
  "list_ex is_fetch (handleSubmit int_host (idle_state ''What is virtue?'') clock0 (Parsed scenario_a))
   \<and> \<not> stages_pending_after_fetch
         (handleSubmit int_host (idle_state ''What is virtue?'') clock0 (Parsed scenario_a))"
  by (simp add: handleSubmit_def stages_pending_after_fetch_def idle_state_def trim_def is_ws_def
      length_catalog stage_loop_unfolded Let_def scenario_a_def classify_def or_js_def)

text \<open>
  C4, amended. The timer chain is awaited before the request is issued: no timer wait or
  stage transition comes after the call of \<open>fetch\<close>; and when the query is not blank, the
  call is made after nine waits of 800 ms, in a state where all nine stages are \<open>Completed\<close>.
\<close>

theorem fetch_follows_stage_sequence:
  "\<not> stages_pending_after_fetch (handleSubmit h s c out)
   \<and> (\<not> list_all is_ws (query s) \<longrightarrow>
        list_ex is_fetch (handleSubmit h s c out)
        \<and> filter (\<lambda>a. a = AwaitTimeout 800) (takeWhile (\<lambda>a. \<not> is_fetch a) (handleSubmit h s c out))
            = replicate 9 (AwaitTimeout 800)
        \<and> map status (thinkingSteps (run (takeWhile (\<lambda>a. \<not> is_fetch a) (handleSubmit h s c out)) s))
            = replicate 9 Completed)"
proof (cases "list_all is_ws (query s)")
  case True
  then show ?thesis
    by (simp add: handleSubmit_def stages_pending_after_fetch_def trim_empty_iff)
next
  case False
  show ?thesis
    unfolding handleSubmit_unfolded [OF False]
    using False
    by (simp add: stages_pending_after_fetch_def run_def simulateThinkingSteps_def numeral_eq_Suc)
qed

text \<open>C4, amended, at the query \<open>What is virtue?\<close> when the request is rejected.\<close>

theorem fetch_follows_stage_sequence_witness:
  "\<not> list_all is_ws (query (idle_state ''What is virtue?''))
   \<and> \<not> stages_pending_after_fetch
         (handleSubmit int_host (idle_state ''What is virtue?'') clock0 (Rejected ''Failed to fetch''))
   \<and> list_ex is_fetch
         (handleSubmit int_host (idle_state ''What is virtue?'') clock0 (Rejected ''Failed to fetch''))
   \<and> map status (thinkingSteps (run (takeWhile (\<lambda>a. \<not> is_fetch a)
         (handleSubmit int_host (idle_state ''What is virtue?'') clock0 (Rejected ''Failed to fetch'')))
         (idle_state ''What is virtue?'')))
       = replicate 9 Completed"
  using fetch_follows_stage_sequence
    [of int_host "idle_state ''What is virtue?''" clock0 "Rejected ''Failed to fetch''"]
  by (simp add: idle_state_def is_ws_def)

section \<open>The classifier\<close>

lemma classify_not_both:
  assumes "get_prop d ''reasoning_chain'' = Some r" "get_prop d ''synthesis'' = Some y"
    and "\<not> (truthy h r \<and> truthy h y)"
  shows "classify h d =
     (case y of
        J (JStr s) \<Rightarrow>
          Some (SynthesisResponse
                 (or_js h (the (get_prop d ''philosophers'')) (J (JArr [JStr ''Ancient Philosophers'']))) s)
      | _ \<Rightarrow> Some (FormattedResponse (stringify h ''  '' [] d)))"
  using assms by (cases d) (auto simp: classify_def split: jsval.splits json.splits)

lemma classify_both:
  assumes "get_prop d ''reasoning_chain'' = Some r" "get_prop d ''synthesis'' = Some y"
    and "truthy h r" "truthy h y"
  shows "classify h d = philosophical h d r y"
  using assms by (simp add: classify_def)

lemma philosophical_result:
  "philosophical h d r y = Some v \<Longrightarrow>
     \<exists>p m t. v = PhilosophicalResponse p m t \<and> get_prop d ''philosophers_consulted'' = Some p"
  by (auto simp: philosophical_def split: bind_splits)

lemma classify_cases:
  assumes "classify h d = Some v"
  obtains r y where "get_prop d ''reasoning_chain'' = Some r" "get_prop d ''synthesis'' = Some y"
  using assms by (cases d) (auto simp: classify_def)

subsection \<open>Payloads on which nothing throws\<close>

lemma those_map_total:
  "(\<And>x. x \<in> set xs \<Longrightarrow> \<exists>y. f x = Some y) \<Longrightarrow> \<exists>ys. those (map f xs) = Some ys"
proof (induction xs)
  case Nil
  then show ?case by simp
next
  case (Cons x xs)
  then obtain y ys where "f x = Some y" "those (map f xs) = Some ys"
    by (meson list.set_intros)
  then show ?case by simp
qed

lemma forEach_total:
  "(\<And>x s. x \<in> set xs \<Longrightarrow> \<exists>s'. f x s = Some s') \<Longrightarrow> \<exists>s'. forEach f xs s = Some s'"
proof (induction xs arbitrary: s)
  case Nil
  then show ?case by simp
next
  case (Cons x xs)
  then obtain s1 where "f x s = Some s1" by (meson list.set_intros)
  moreover have "\<exists>s'. forEach f xs s1 = Some s'" using Cons by simp
  ultimately show ?case by simp
qed

lemma to_str_total: "tame v \<Longrightarrow> \<exists>s. to_str h v = Some s"
proof (induction v)
  case (JArr xs)
  have "\<exists>ys. those (map (\<lambda>x. if x = JNull then Some [] else to_str h x) xs) = Some ys"
  proof (rule those_map_total)
    fix x assume "x \<in> set xs"
    then show "\<exists>y. (if x = JNull then Some [] else to_str h x) = Some y"
      using JArr by (auto simp: list_all_iff)
  qed
  then show ?case by auto
qed simp_all

lemma to_string_total: "tame_value v \<Longrightarrow> \<exists>s. to_string h v = Some s"
  by (cases v) (simp_all add: to_str_total)

lemma get_prop_total:
  "tame v \<Longrightarrow> v \<noteq> JNull \<Longrightarrow> \<exists>w. get_prop v k = Some w \<and> tame_value w"
proof (cases v)
  case (JObj kvs)
  assume "tame v"
  then have "\<And>x. map_of kvs k = Some x \<Longrightarrow> tame x"
    using JObj by (auto simp: list_all_iff dest!: map_of_SomeD)
  then show ?thesis using JObj by (auto split: option.splits)
qed simp_all

lemma orM_total:
  assumes "\<exists>w. a = Some w \<and> tame_value w" "\<exists>w. b = Some w \<and> tame_value w"
  shows "\<exists>w. orM h a b = Some w \<and> tame_value w"
  using assms by (auto simp: orM_def)

lemma or_js_tame: "tame_value a \<Longrightarrow> tame_value b \<Longrightarrow> tame_value (or_js h a b)"
  by (simp add: or_js_def)

lemma alternatives_total:
  assumes "tame item" "item \<noteq> JNull"
  shows "\<exists>w. alternatives h keys p item = Some w \<and> tame_value w"
  unfolding alternatives_def
  by (induction keys) (simp_all add: assms or_js_tame orM_total get_prop_total)

lemma bullet_total:
  assumes "tame item" "item \<noteq> JNull"
  shows "\<exists>t. bullet h keys p item text = Some t"
proof -
  obtain w where "alternatives h keys p item = Some w" "tame_value w"
    using alternatives_total [OF assms] by blast
  moreover obtain s where "to_string h w = Some s"
    using to_string_total calculation(2) by blast
  ultimately show ?thesis by (simp add: bullet_def)
qed

lemma bullets_total: "tame_value v \<Longrightarrow> \<exists>t. bullets h keys p m v text = Some t"
  unfolding bullets_def
  by (auto split: jsval.splits json.splits simp: list_all_iff intro!: forEach_total bullet_total)

lemma join_total: "list_all tame_value xs \<Longrightarrow> \<exists>s. join h sep xs = Some s"
proof -
  assume a: "list_all tame_value xs"
  have "\<exists>ys. those (map (\<lambda>x. if x = Undefined \<or> x = J JNull then Some [] else to_string h x) xs) = Some ys"
    by (rule those_map_total) (use a in \<open>auto simp: list_all_iff to_string_total\<close>)
  then show ?thesis by (auto simp: join_def)
qed

lemma or_none_total: "tame_value v \<Longrightarrow> \<exists>s. to_string h (or_js h v (J (JStr p))) = Some s"
  by (rule to_string_total) (simp add: or_js_tame)

lemma joined_section_total:
  assumes "tame_value v"
  shows "\<exists>s. joined_section h v = Some s"
proof (cases "\<exists>xs. v = J (JArr xs)")
  case True
  then obtain xs where v: "v = J (JArr xs)" by blast
  have "list_all tame_value (map J xs)"
    using assms by (simp add: v list_all_iff)
  then show ?thesis
    using join_total by (simp add: joined_section_def v)
next
  case False
  then show ?thesis
    using or_none_total [OF assms, of h "''None''"]
    by (auto simp: joined_section_def split: jsval.splits json.splits)
qed

lemma mapped_section_total:
  assumes "tame_value v"
  shows "\<exists>s. mapped_section h key v = Some s"
proof (cases "\<exists>xs. v = J (JArr xs)")
  case True
  then obtain xs where v: "v = J (JArr xs)" by blast
  have "\<exists>ys. those (map (\<lambda>x. orM h (get_prop x key) (Some (J x))) xs) = Some ys \<and> list_all tame_value ys"
    using assms unfolding v
  proof (induction xs)
    case Nil
    then show ?case by simp
  next
    case (Cons x xs)
    then have x: "tame x" "x \<noteq> JNull" by simp_all
    then obtain w where "orM h (get_prop x key) (Some (J x)) = Some w" "tame_value w"
      using orM_total [OF get_prop_total [OF x], of "Some (J x)" h key] by auto
    moreover obtain ys where "those (map (\<lambda>x. orM h (get_prop x key) (Some (J x))) xs) = Some ys" "list_all tame_value ys"
      using Cons by auto
    ultimately show ?case by simp
  qed
  then show ?thesis
    using join_total by (fastforce simp: mapped_section_def v)
next
  case False
  then show ?thesis
    using or_none_total [OF assms, of h "''None''"]
    by (auto simp: mapped_section_def split: jsval.splits json.splits)
qed

lemma format_rp_total:
  assumes "tame rp" "rp \<noteq> JNull"
  shows "\<exists>t. format_rp h rp text = Some t"
proof (cases "typeof (J rp) = ''object''")
  case True
  have e: "\<exists>w. Some (J (JStr [])) = Some (w :: 'a jsval) \<and> tame_value w" by simp
  have g: "\<And>k. \<exists>w. get_prop rp k = Some w \<and> tame_value w"
    using get_prop_total [OF assms] by blast
  obtain a where a: "orM h (get_prop rp ''type'') (orM h (get_prop rp ''step'') (Some (J (JStr [])))) = Some a"
      "tame_value a"
    using orM_total [OF g orM_total [OF g e]] by blast
  obtain b where b: "orM h (get_prop rp ''description'') (orM h (get_prop rp ''exploration'')
               (orM h (get_prop rp ''analysis'') (orM h (get_prop rp ''sub-step'') (Some (J (JStr [])))))) = Some b"
      "tame_value b"
    using orM_total [OF g orM_total [OF g orM_total [OF g orM_total [OF g e]]]] by blast
  obtain sa sb where "to_string h a = Some sa" "to_string h b = Some sb"
    using to_string_total a(2) b(2) by blast
  then show ?thesis using True a(1) b(1) by (simp add: format_rp_def)
next
  case False
  then show ?thesis using to_str_total [OF assms(1), of h]
    by (auto simp: format_rp_def)
qed

lemma entries_tame: "tame v \<Longrightarrow> kv \<in> set (entries v) \<Longrightarrow> tame (snd kv)"
  by (cases v) (auto simp: list_all_iff)

lemma dialectical_total:
  assumes "tame_value v"
  shows "\<exists>t. dialectical_challenges_section h v text = Some t"
proof (cases v)
  case (J x)
  have "\<exists>t. forEach (dialectical_challenge h) (entries x) text = Some t"
  proof (rule forEach_total)
    fix kv s assume "kv \<in> set (entries x)"
    then have "tame (snd kv)" using assms J by (auto intro: entries_tame)
    then obtain t where "to_str h (snd kv) = Some t" using to_str_total by blast
    then show "\<exists>s'. dialectical_challenge h kv s = Some s'"
      by (simp add: dialectical_challenge_def)
  qed
  then show ?thesis using J by (simp add: dialectical_challenges_section_def)
qed (simp_all add: dialectical_challenges_section_def)

lemma enhancement_total:
  assumes "tame_value v"
  shows "\<exists>t. metacognitive_enhancement_section h v text = Some t"
proof (cases "\<exists>xs. v = J (JArr xs)")
  case True
  then obtain xs where v: "v = J (JArr xs)" by blast
  have "\<exists>t. forEach (bullet h [''reflection'', ''self-awareness''] ''No enhancement provided'') xs text = Some t"
    by (rule forEach_total, rule bullet_total) (use assms in \<open>auto simp: v list_all_iff\<close>)
  then show ?thesis by (simp add: metacognitive_enhancement_section_def v)
next
  case False
  then show ?thesis
    by (auto simp: metacognitive_enhancement_section_def split: jsval.splits json.splits)
qed

lemma bind_tame:
  "\<exists>x. a = Some x \<and> tame_value x \<Longrightarrow> (\<And>x. tame_value x \<Longrightarrow> \<exists>y. f x = Some y)
    \<Longrightarrow> \<exists>y. (a \<bind> f) = Some y"
  by auto

lemma bind_any:
  "\<exists>x. a = Some x \<Longrightarrow> (\<And>x. \<exists>y. f x = Some y) \<Longrightarrow> \<exists>y. (a \<bind> f) = Some y"
  by auto

lemma reasoning_process_total:
  assumes "tame_value v"
  shows "\<exists>t. (case v of J (JArr rps) \<Rightarrow> forEach (format_rp h) rps text | _ \<Rightarrow> Some (text @ m)) = Some t"
proof (cases "\<exists>xs. v = J (JArr xs)")
  case True
  then obtain xs where v: "v = J (JArr xs)" by blast
  have "\<exists>t. forEach (format_rp h) xs text = Some t"
    by (rule forEach_total, rule format_rp_total) (use assms in \<open>auto simp: v list_all_iff\<close>)
  then show ?thesis by (simp add: v)
next
  case False
  then show ?thesis by (auto split: jsval.splits json.splits)
qed

lemma format_step_total:
  assumes "tame step" "step \<noteq> JNull"
  shows "\<exists>t. format_step h step r = Some t"
proof -
  have g: "\<And>k. \<exists>w. get_prop step k = Some w \<and> tame_value w"
    using get_prop_total [OF assms] by blast
  have e: "\<And>p. \<exists>w. Some (J (JStr p)) = Some (w :: 'a jsval) \<and> tame_value w" by simp
  show ?thesis
    unfolding format_step_def Let_def
    apply (rule bind_tame, rule g)
    apply (rule bind_tame, rule orM_total [OF g e])
    apply (rule bind_any, erule to_string_total)
    apply (rule bind_tame, rule g)
    apply (rule bind_any, erule reasoning_process_total)
    apply (rule bind_tame, rule g)
    apply (rule bind_any, erule mapped_section_total)
    apply (rule bind_tame, rule g)
    apply (rule bind_any, erule or_none_total)
    apply (rule bind_tame, rule g)
    apply (rule bind_any, erule mapped_section_total)
    apply (rule bind_tame, rule g)
    apply (rule bind_any, erule mapped_section_total)
    apply (rule bind_tame, rule g)
    apply (rule bind_any, erule mapped_section_total)
    apply (rule bind_any, rule to_string_total, assumption)
    apply simp
    done
qed

lemma unified_total:
  assumes "tame_value v"
  shows "\<exists>w. (case v of J x \<Rightarrow> (if x = JNull then Some Undefined
                            else get_prop x ''unified_insight_combining_all_perspectives'')
                 | _ \<Rightarrow> Some Undefined) = Some w \<and> tame_value w"
proof (cases v)
  case (J x)
  then show ?thesis using assms get_prop_total [of x] by (cases "x = JNull") auto
qed simp_all

lemma integrated_wisdom_total:
  assumes "tame_value u" "tame_value v"
  shows "\<exists>s. to_string h (or_js h u (or_js h v (J (JStr p)))) = Some s"
  by (rule to_string_total) (simp add: assms or_js_tame)

lemma format_synthesis_total:
  assumes "tame syn" "syn \<noteq> JNull"
  shows "\<exists>t. format_synthesis h syn = Some t"
proof -
  have g: "\<And>k. \<exists>w. get_prop syn k = Some w \<and> tame_value w"
    using get_prop_total [OF assms] by blast
  show ?thesis
    unfolding format_synthesis_def Let_def
    apply (rule bind_tame, rule g)
    apply (rule bind_tame, erule unified_total)
    apply (rule bind_any, erule (1) integrated_wisdom_total)
    apply (rule bind_tame, rule g)
    apply (rule bind_any, erule bullets_total)
    apply (rule bind_tame, rule g)
    apply (rule bind_any, erule bullets_total)
    apply (rule bind_tame, rule g)
    apply (rule bind_any, erule enhancement_total)
    apply (rule bind_tame, rule g)
    apply (rule bind_any, erule bullets_total)
    apply (rule bind_tame, rule g)
    apply (rule bind_any, erule bullets_total)
    apply (rule bind_tame, rule g)
    apply (rule bind_any, erule bullets_total)
    apply (rule bind_tame, rule g)
    apply (rule bind_any, erule bullets_total)
    apply (rule bind_tame, rule g)
    apply (rule bind_any, erule bullets_total)
    apply (rule bind_tame, rule g)
    apply (rule bind_any, erule joined_section_total)
    apply (rule bind_tame, rule g)
    apply (rule bind_any, erule dialectical_total)
    apply (rule bind_tame, rule g)
    apply (rule bind_any, erule or_none_total)
    apply (rule bind_tame, rule g)
    apply (rule bind_any, erule joined_section_total)
    apply simp
    done
qed

lemma philosophical_total:
  assumes "tame d" "d \<noteq> JNull" "get_prop d ''reasoning_chain'' = Some (J (JArr steps))"
    and "get_prop d ''synthesis'' = Some y" "truthy h y"
  shows "\<exists>m t. philosophical h d (J (JArr steps)) y
           = Some (PhilosophicalResponse (the (get_prop d ''philosophers_consulted'')) m t)"
proof -
  have ts: "tame_value (J (JArr steps))" "tame_value y"
    using get_prop_total [OF assms(1,2), of "''reasoning_chain''"]
      get_prop_total [OF assms(1,2), of "''synthesis''"] assms(3,4) by auto
  have "\<exists>m. forEach (format_step h) steps Map.empty = Some m"
    by (rule forEach_total, rule format_step_total) (use ts(1) in \<open>auto simp: list_all_iff\<close>)
  then obtain m where m: "forEach (format_step h) steps Map.empty = Some m" by blast
  have "\<exists>t. (if typeof y = ''object''
                then (case y of J syn \<Rightarrow> map_option (\<lambda>s. J (JStr s)) (format_synthesis h syn) | _ \<Rightarrow> None)
                else Some (or_js h y (J (JStr ''No synthesis provided'')))) = Some t"
  proof (cases y)
    case (J syn)
    then have "tame syn" "syn \<noteq> JNull" using ts(2) assms(5) by auto
    then obtain t where "format_synthesis h syn = Some t"
      using format_synthesis_total by blast
    then show ?thesis using J by simp
  qed simp_all
  then obtain t where t: "(if typeof y = ''object''
                then (case y of J syn \<Rightarrow> map_option (\<lambda>s. J (JStr s)) (format_synthesis h syn) | _ \<Rightarrow> None)
                else Some (or_js h y (J (JStr ''No synthesis provided'')))) = Some t" by blast
  obtain p where p: "get_prop d ''philosophers_consulted'' = Some p"
    using get_prop_total [OF assms(1,2)] by blast
  show ?thesis
    unfolding philosophical_def by (simp add: m t p del: typeof.simps)
qed

subsection \<open>Falsy section fields\<close>

lemma map_of_without: "map_of (without k kvs) k' = (if k' = k then None else map_of kvs k')"
  by (induction kvs) (auto simp: without_def)

lemma get_prop_without:
  "get_prop (JObj (without k kvs)) k' = (if k' = k then Some Undefined else get_prop (JObj kvs) k')"
  by (simp add: map_of_without)

lemma falsy_cases:
  assumes "\<not> truthy h (J v)"
  obtains "v = JNull" | "v = JBool False" | n where "v = JNum n" "num_is_zero h n" | "v = JStr []"
  using assms by (cases v) auto

lemma falsy_orM: "\<not> truthy h v \<Longrightarrow> orM h (Some v) b = b"
  by (simp add: orM_def)

lemma falsy_or_js: "\<not> truthy h v \<Longrightarrow> or_js h v b = b"
  by (simp add: or_js_def)

lemma falsy_mapped_section: "\<not> truthy h (J v) \<Longrightarrow> mapped_section h key (J v) = Some ''None''"
  by (erule falsy_cases) (simp_all add: mapped_section_def or_js_def)

lemma undef_mapped_section: "mapped_section h key Undefined = Some ''None''"
  by (simp add: mapped_section_def or_js_def)

lemma falsy_not_array: "\<not> truthy h (J v) \<Longrightarrow> (case v of JArr xs \<Rightarrow> f xs | _ \<Rightarrow> g) = g"
  by (erule falsy_cases) simp_all

lemma falsy_step:
  assumes "k \<in> set step_sections" "map_of kvs k = Some v" "\<not> truthy h (J v)"
  shows "format_step h (JObj kvs) r = format_step h (JObj (without k kvs)) r"
proof -
  have u: "\<not> truthy h (Undefined :: 'a jsval)" by simp
  from assms(1) have "k = ''core_insight'' \<or> k = ''reasoning_process''
    \<or> k = ''metacognitive_awareness'' \<or> k = ''socratic_catalyst'' \<or> k = ''practical_application''
    \<or> k = ''connection_to_principles'' \<or> k = ''cognitive_stimulation''"
    unfolding step_sections_def by simp
  then show ?thesis
  proof (elim disjE)
    assume "k = ''core_insight''"
    then show ?thesis using assms(2,3)
      by (simp add: format_step_def map_of_without falsy_orM)
  next
    assume "k = ''reasoning_process''"
    then show ?thesis using assms(2,3)
      by (simp add: format_step_def map_of_without falsy_not_array)
  next
    assume "k = ''metacognitive_awareness''"
    then show ?thesis using assms(2,3)
      by (simp add: format_step_def map_of_without falsy_mapped_section undef_mapped_section)
  next
    assume "k = ''socratic_catalyst''"
    then show ?thesis using assms(2,3)
      by (simp add: format_step_def map_of_without falsy_or_js)
  next
    assume "k = ''practical_application''"
    then show ?thesis using assms(2,3)
      by (simp add: format_step_def map_of_without falsy_mapped_section undef_mapped_section)
  next
    assume "k = ''connection_to_principles''"
    then show ?thesis using assms(2,3)
      by (simp add: format_step_def map_of_without falsy_mapped_section undef_mapped_section)
  next
    assume "k = ''cognitive_stimulation''"
    then show ?thesis using assms(2,3)
      by (simp add: format_step_def map_of_without falsy_mapped_section undef_mapped_section)
  qed
qed


lemma falsy_bullets: "\<not> truthy h v \<Longrightarrow> bullets h keys p m v text = Some (text @ m @ nl)"
  by (cases v) (auto simp: bullets_def elim: falsy_cases)

lemma falsy_joined_section: "\<not> truthy h v \<Longrightarrow> joined_section h v = Some ''None''"
  by (cases v) (auto simp: joined_section_def or_js_def elim: falsy_cases)

lemma falsy_dialectical: "\<not> truthy h v \<Longrightarrow>
    dialectical_challenges_section h v text = Some (text @ ''- No dialectical challenges provided'' @ nl)"
  by (simp add: dialectical_challenges_section_def)

lemma falsy_enhancement: "\<not> truthy h v \<Longrightarrow> v \<noteq> J (JStr []) \<Longrightarrow>
    metacognitive_enhancement_section h v text = Some (text @ ''- No metacognitive enhancement provided'' @ nl)"
  by (cases v) (auto simp: metacognitive_enhancement_section_def elim: falsy_cases)

lemma falsy_unified: "\<not> truthy h (J v) \<Longrightarrow>
    (if v = JNull then Some Undefined else get_prop v ''unified_insight_combining_all_perspectives'') = Some Undefined"
  by (erule falsy_cases) simp_all

lemmas falsy_simps = falsy_orM falsy_or_js falsy_mapped_section undef_mapped_section falsy_not_array
  falsy_bullets falsy_joined_section falsy_dialectical falsy_enhancement falsy_unified

lemma falsy_synthesis:
  assumes "k \<in> set synthesis_sections" "map_of kvs k = Some v" "\<not> truthy h (J v)"
    and "k = ''metacognitive_enhancement'' \<longrightarrow> v \<noteq> JStr []"
  shows "format_synthesis h (JObj kvs) = format_synthesis h (JObj (without k kvs))"
proof -
  have u: "\<not> truthy h (Undefined :: 'a jsval)" by simp
  from assms(1) have "k = ''integrated_wisdom'' \<or> k = ''key_insights'' \<or> k = ''practical_steps'' \<or> k = ''metacognitive_enhancement'' \<or> k = ''reasoning_quality_assessment'' \<or> k = ''cognitive_bridges'' \<or> k = ''transformative_elements'' \<or> k = ''application_scenarios'' \<or> k = ''deepening_questions'' \<or> k = ''metacognitive_prompts'' \<or> k = ''dialectical_challenges'' \<or> k = ''synthesis_quality_score'' \<or> k = ''cognitive_enhancement_elements''"
    unfolding synthesis_sections_def by simp
  then show ?thesis
  proof (elim disjE)
    assume "k = ''integrated_wisdom''"
    then show ?thesis using assms(2,3,4) u
      by (simp add: format_synthesis_def map_of_without falsy_simps)
  next
    assume "k = ''key_insights''"
    then show ?thesis using assms(2,3,4) u
      by (simp add: format_synthesis_def map_of_without falsy_simps)
  next
    assume "k = ''practical_steps''"
    then show ?thesis using assms(2,3,4) u
      by (simp add: format_synthesis_def map_of_without falsy_simps)
  next
    assume "k = ''metacognitive_enhancement''"
    then show ?thesis using assms(2,3,4) u
      by (simp add: format_synthesis_def map_of_without falsy_simps)
  next
    assume "k = ''reasoning_quality_assessment''"
    then show ?thesis using assms(2,3,4) u
      by (simp add: format_synthesis_def map_of_without falsy_simps)
  next
    assume "k = ''cognitive_bridges''"
    then show ?thesis using assms(2,3,4) u
      by (simp add: format_synthesis_def map_of_without falsy_simps)
  next
    assume "k = ''transformative_elements''"
    then show ?thesis using assms(2,3,4) u
      by (simp add: format_synthesis_def map_of_without falsy_simps)
  next
    assume "k = ''application_scenarios''"
    then show ?thesis using assms(2,3,4) u
      by (simp add: format_synthesis_def map_of_without falsy_simps)
  next
    assume "k = ''deepening_questions''"
    then show ?thesis using assms(2,3,4) u
      by (simp add: format_synthesis_def map_of_without falsy_simps)
  next
    assume "k = ''metacognitive_prompts''"
    then show ?thesis using assms(2,3,4) u
      by (simp add: format_synthesis_def map_of_without falsy_simps)
  next
    assume "k = ''dialectical_challenges''"
    then show ?thesis using assms(2,3,4) u
      by (simp add: format_synthesis_def map_of_without falsy_simps)
  next
    assume "k = ''synthesis_quality_score''"
    then show ?thesis using assms(2,3,4) u
      by (simp add: format_synthesis_def map_of_without falsy_simps)
  next
    assume "k = ''cognitive_enhancement_elements''"
    then show ?thesis using assms(2,3,4) u
      by (simp add: format_synthesis_def map_of_without falsy_simps)
  qed
qed

subsection \<open>Exceptions inside the classifier\<close>

text \<open>
  C1. The classifier does throw. On the body
  \<^verbatim>\<open>{"reasoning_chain": [{"philosopher": "Socrates", "reasoning_process": ["Define virtue", null]}],
   "synthesis": "Know thyself."}\<close>
  the entry \<open>null\<close> passes the test \<open>typeof rp === 'object'\<close> of line 86 and the read of
  \<open>rp.type\<close> throws a \<open>TypeError\<close>: the classifier produces no variant, and the reply of the
  submission is the error variant of the \<open>catch\<close> block. It also throws on the body \<open>null\<close>
  (the read of \<open>data.reasoning_chain\<close>) and on a reasoning chain that is an object, not an
  array (the call of \<open>forEach\<close>).
\<close>

theorem classifier_throws:
  "classify h null_item_payload = None
   \<and> bot_reply h (Parsed null_item_payload) = ErrorResponse apology TypeError
   \<and> classify h JNull = None
   \<and> classify h (JObj [(''reasoning_chain'', JObj [(''Socrates'', JStr ''Virtue is knowledge'')]),
                       (''synthesis'', JStr ''Know thyself.'')]) = None"
  by (simp add: null_item_payload_def bot_reply_def classify_def philosophical_def format_step_def
      format_rp_def orM_def)

text \<open>
  When a truthy reasoning chain comes with a non-empty string as synthesis and the
  classifier returns, it returns a philosophical response that stores the string as it is.
\<close>

lemma string_synthesis_kept:
  assumes "get_prop d ''reasoning_chain'' = Some r" "truthy h r"
    and "get_prop d ''synthesis'' = Some (J (JStr s))" "s \<noteq> []"
    and "classify h d = Some v"
  shows "\<exists>p m. v = PhilosophicalResponse p m (J (JStr s))"
proof -
  have "philosophical h d r (J (JStr s)) = Some v"
    using assms classify_both [of d r "J (JStr s)" h] by simp
  then show ?thesis
    by (auto simp: philosophical_def or_js_def assms(4) split: bind_splits)
qed

text \<open>
  C9. With the truthy reasoning chain \<open>[null]\<close> and the non-empty string synthesis
  \<open>Know thyself.\<close> the classifier returns no philosophical response: the read of
  \<open>step.philosopher\<close> at line 81 throws a \<open>TypeError\<close>.
\<close>

theorem classifier_throws_on_null_step:
  "truthy h (J (JArr [JNull])) \<and> truthy h (J (JStr ''Know thyself.''))
   \<and> classify h null_step_payload = None"
  by (simp add: null_step_payload_def classify_def philosophical_def format_step_def)

subsection \<open>The order of classification\<close>

text \<open>
  C2, as stated, fails: a body that has a reasoning chain of one perspective and a
  synthesis field holding the empty string is classified as a synthesis response, not as
  a philosophical one.
\<close>

theorem classification_order_counterexample:
  "get_prop (JObj [(''reasoning_chain'', JArr [JObj [(''philosopher'', JStr ''Socrates'')]]),
                   (''synthesis'', JStr [])] :: int json) ''reasoning_chain''
     = Some (J (JArr [JObj [(''philosopher'', JStr ''Socrates'')]]))
   \<and> get_prop (JObj [(''reasoning_chain'', JArr [JObj [(''philosopher'', JStr ''Socrates'')]]),
                   (''synthesis'', JStr [])] :: int json) ''synthesis'' = Some (J (JStr []))
   \<and> classify int_host (JObj [(''reasoning_chain'', JArr [JObj [(''philosopher'', JStr ''Socrates'')]]),
                   (''synthesis'', JStr [])])
     = Some (SynthesisResponse (J (JArr [JStr ''Ancient Philosophers''])) [])"
  by (simp add: classify_def or_js_def)

text \<open>
  C2, amended. For a body that is not \<open>null\<close>, with \<open>r\<close> and \<open>y\<close> the values of its
  \<open>reasoning_chain\<close> and \<open>synthesis\<close>: if both are truthy the philosophical branch is taken,
  so the result is a philosophical response whenever the branch completes, and it completes
  whenever \<open>r\<close> is an array and the body has no \<open>null\<close> array element and no property named
  \<open>toString\<close>; otherwise, if \<open>y\<close> is a string, the result is a synthesis response with that
  string as content; otherwise the result is the formatted response whose content is
  \<open>JSON.stringify(data, null, 2)\<close>.
\<close>

theorem classification_order:
  assumes "get_prop d ''reasoning_chain'' = Some r" "get_prop d ''synthesis'' = Some y"
  shows "(truthy h r \<and> truthy h y \<longrightarrow>
            classify h d = None \<or> (\<exists>p m t. classify h d = Some (PhilosophicalResponse p m t)))
       \<and> (truthy h r \<and> truthy h y \<and> tame d \<and> (\<exists>steps. r = J (JArr steps)) \<longrightarrow>
            (\<exists>p m t. classify h d = Some (PhilosophicalResponse p m t)))
       \<and> (\<not> (truthy h r \<and> truthy h y) \<and> y = J (JStr s) \<longrightarrow>
            (\<exists>p. classify h d = Some (SynthesisResponse p s)))
       \<and> (\<not> (truthy h r \<and> truthy h y) \<and> typeof y \<noteq> ''string'' \<longrightarrow>
            classify h d = Some (FormattedResponse (stringify h ''  '' [] d)))"
proof (intro conjI impI)
  assume a: "truthy h r \<and> truthy h y"
  then have c: "classify h d = philosophical h d r y"
    using assms by (simp add: classify_both)
  show "classify h d = None \<or> (\<exists>p m t. classify h d = Some (PhilosophicalResponse p m t))"
  proof (cases "classify h d")
    case None
    then show ?thesis by simp
  next
    case (Some v)
    then show ?thesis using c philosophical_result [of h d r y v] by auto
  qed
next
  assume a: "truthy h r \<and> truthy h y \<and> tame d \<and> (\<exists>steps. r = J (JArr steps))"
  then obtain steps where r: "r = J (JArr steps)" by blast
  have n: "d \<noteq> JNull" using assms(1) by auto
  have c: "classify h d = philosophical h d r y"
    using assms a by (simp add: classify_both)
  show "\<exists>p m t. classify h d = Some (PhilosophicalResponse p m t)"
    using philosophical_total [of d steps y h] a n assms unfolding c r by blast
next
  assume a: "\<not> (truthy h r \<and> truthy h y) \<and> y = J (JStr s)"
  then have n: "\<not> (truthy h r \<and> truthy h y)" and y: "y = J (JStr s)" by blast+
  show "\<exists>p. classify h d = Some (SynthesisResponse p s)"
    using classify_not_both [OF assms n] by (simp add: y)
next
  assume a: "\<not> (truthy h r \<and> truthy h y) \<and> typeof y \<noteq> ''string''"
  then have n: "\<not> (truthy h r \<and> truthy h y)" by blast
  have "classify h d = (case y of
        J (JStr s) \<Rightarrow>
          Some (SynthesisResponse
                 (or_js h (the (get_prop d ''philosophers'')) (J (JArr [JStr ''Ancient Philosophers'']))) s)
      | _ \<Rightarrow> Some (FormattedResponse (stringify h ''  '' [] d)))"
    using classify_not_both [OF assms n] by simp
  then show "classify h d = Some (FormattedResponse (stringify h ''  '' [] d))"
    using a by (auto split: jsval.splits json.splits)
qed

text \<open>
  C2, amended, at scenario B (one perspective and a structured synthesis), at scenario A
  and at a body of an unrecognized shape.
\<close>

theorem classification_order_witness:
  "get_prop scenario_b ''reasoning_chain''
     = Some (J (JArr [JObj [(''philosopher'', JStr ''Socrates''), (''core_insight'', JStr ''Question everything'')]]))
   \<and> get_prop scenario_b ''synthesis'' = Some (J (JObj [(''integrated_wisdom'', JStr ''Seek the good'')]))
   \<and> truthy int_host (J (JArr [JObj [(''philosopher'', JStr ''Socrates''), (''core_insight'', JStr ''Question everything'')]]))
   \<and> truthy int_host (J (JObj [(''integrated_wisdom'', JStr ''Seek the good'')]))
   \<and> tame scenario_b
   \<and> (\<exists>p m t. classify int_host scenario_b = Some (PhilosophicalResponse p m t))
   \<and> get_prop scenario_a ''reasoning_chain'' = Some Undefined
   \<and> get_prop scenario_a ''synthesis'' = Some (J (JStr ''Know thyself.''))
   \<and> (\<exists>p. classify int_host scenario_a = Some (SynthesisResponse p ''Know thyself.''))
   \<and> get_prop scenario_d ''reasoning_chain'' = Some Undefined
   \<and> get_prop scenario_d ''synthesis'' = Some Undefined
   \<and> typeof (Undefined :: int jsval) \<noteq> ''string''
   \<and> classify int_host scenario_d = Some (FormattedResponse
         (''{'' @ nl @ ''  '' @ dq @ ''answer'' @ dq @ '': 42,'' @ nl
          @ ''  '' @ dq @ ''ok'' @ dq @ '': ['' @ nl @ ''    true,'' @ nl @ ''    null'' @ nl
          @ ''  ]'' @ nl @ ''}''))"
  using classification_order [of scenario_b
      "J (JArr [JObj [(''philosopher'', JStr ''Socrates''), (''core_insight'', JStr ''Question everything'')]])"
      "J (JObj [(''integrated_wisdom'', JStr ''Seek the good'')])" int_host]
    classification_order [of scenario_a Undefined "J (JStr ''Know thyself.'')" int_host "''Know thyself.''"]
    classification_order [of scenario_d Undefined Undefined int_host]
  by (simp add: scenario_b_def scenario_a_def scenario_d_def quote_def json_escape_def nl_def dq_def
      int_host_def show_int_def show_nat.simps digit_char_def)

subsection \<open>The philosophers field\<close>

text \<open>
  C3, as stated, fails for the philosophical variant: on a body without
  \<open>philosophers_consulted\<close> its \<open>philosophers\<close> field is \<open>undefined\<close>, not a list of names.
\<close>

theorem philosophers_field_counterexample:
  "get_prop (JObj [(''reasoning_chain'', JArr [JObj [(''philosopher'', JStr ''Socrates''),
                                                     (''core_insight'', JStr ''Question everything'')]]),
                   (''synthesis'', JStr ''Know thyself.'')] :: int json) ''philosophers_consulted''
     = Some Undefined
   \<and> (case classify int_host
             (JObj [(''reasoning_chain'', JArr [JObj [(''philosopher'', JStr ''Socrates''),
                                                      (''core_insight'', JStr ''Question everything'')]]),
                    (''synthesis'', JStr ''Know thyself.'')]) of
        Some (PhilosophicalResponse p m t) \<Rightarrow> p = Undefined
      | _ \<Rightarrow> False)"
  by (simp add: classify_def philosophical_def format_step_def orM_def or_js_def mapped_section_def
      assign_def)

text \<open>
  C3, amended. A synthesis response built from a body whose \<open>philosophers\<close> is missing or
  falsy carries the literal list \<open>["Ancient Philosophers"]\<close>. A philosophical response
  carries the body's \<open>philosophers_consulted\<close> as it is (\<open>undefined\<close> when it is missing);
  the classifier puts no default there, and the text \<open>Multiple philosophers\<close> appears only
  where the reply is displayed.
\<close>

theorem philosophers_field:
  "(classify h d = Some (SynthesisResponse p c) \<and> get_prop d ''philosophers'' = Some v \<and> \<not> truthy h v
      \<longrightarrow> p = J (JArr [JStr ''Ancient Philosophers'']))
   \<and> (classify h d' = Some (PhilosophicalResponse p' m t)
      \<longrightarrow> get_prop d' ''philosophers_consulted'' = Some p')
   \<and> consulted h Undefined ''Multiple philosophers'' = Some ''Multiple philosophers''"
proof (intro conjI impI)
  assume a: "classify h d = Some (SynthesisResponse p c) \<and> get_prop d ''philosophers'' = Some v \<and> \<not> truthy h v"
  then obtain r y where ry: "get_prop d ''reasoning_chain'' = Some r" "get_prop d ''synthesis'' = Some y"
    using classify_cases by blast
  show "p = J (JArr [JStr ''Ancient Philosophers''])"
  proof (cases "truthy h r \<and> truthy h y")
    case True
    then have "philosophical h d r y = Some (SynthesisResponse p c)"
      using a ry classify_both [of d r y h] by simp
    then show ?thesis using philosophical_result by blast
  next
    case False
    then show ?thesis
      using a classify_not_both [OF ry False]
      by (auto simp: or_js_def split: jsval.splits json.splits)
  qed
next
  assume a: "classify h d' = Some (PhilosophicalResponse p' m t)"
  then obtain r y where ry: "get_prop d' ''reasoning_chain'' = Some r" "get_prop d' ''synthesis'' = Some y"
    using classify_cases by blast
  show "get_prop d' ''philosophers_consulted'' = Some p'"
  proof (cases "truthy h r \<and> truthy h y")
    case True
    then have "philosophical h d' r y = Some (PhilosophicalResponse p' m t)"
      using a ry classify_both [of d' r y h] by simp
    then show ?thesis using philosophical_result by blast
  next
    case False
    then show ?thesis
      using a classify_not_both [OF ry False]
      by (auto split: jsval.splits json.splits)
  qed
next
  show "consulted h Undefined ''Multiple philosophers'' = Some ''Multiple philosophers''"
    by (simp add: consulted_def)
qed

text \<open>C3, amended, at scenario A and at a body with an empty reasoning chain.\<close>

theorem philosophers_field_witness:
  "classify int_host scenario_a
     = Some (SynthesisResponse (J (JArr [JStr ''Ancient Philosophers''])) ''Know thyself.'')
   \<and> get_prop scenario_a ''philosophers'' = Some Undefined
   \<and> \<not> truthy int_host Undefined
   \<and> classify int_host (JObj [(''reasoning_chain'', JArr []), (''synthesis'', JStr ''Know thyself.'')])
       = Some (PhilosophicalResponse Undefined Map.empty (J (JStr ''Know thyself.'')))
   \<and> get_prop (JObj [(''reasoning_chain'', JArr []), (''synthesis'', JStr ''Know thyself.'')] :: int json)
         ''philosophers_consulted'' = Some Undefined"
  using philosophers_field [of int_host scenario_a "J (JArr [JStr ''Ancient Philosophers''])" "''Know thyself.''"
      Undefined "JObj [(''reasoning_chain'', JArr []), (''synthesis'', JStr ''Know thyself.'')]"
      Undefined Map.empty "J (JStr ''Know thyself.'')"]
  by (simp add: scenario_a_def classify_def philosophical_def or_js_def)

text \<open>
  C6, as stated for any body with a plain string synthesis and no reasoning chain, fails:
  when such a body names its philosophers, the synthesis response carries that list and
  not the default one.
\<close>

theorem plain_synthesis_counterexample:
  "get_prop (JObj [(''synthesis'', JStr ''Know thyself.''), (''philosophers'', JArr [JStr ''Plato''])] :: int json)
      ''reasoning_chain'' = Some Undefined
   \<and> classify int_host (JObj [(''synthesis'', JStr ''Know thyself.''), (''philosophers'', JArr [JStr ''Plato''])])
     = Some (SynthesisResponse (J (JArr [JStr ''Plato''])) ''Know thyself.'')"
  by (simp add: classify_def or_js_def)

text \<open>
  C6, amended. The body \<open>{"synthesis": "Know thyself."}\<close> gives the synthesis response with
  content \<open>Know thyself.\<close> and the default list; and every body whose synthesis is a plain
  string and that has no reasoning chain gives the synthesis response with that string as
  content, and with the default list when its \<open>philosophers\<close> is missing or falsy, the
  body's own \<open>philosophers\<close> otherwise.
\<close>

theorem plain_synthesis:
  "classify h (JObj [(''synthesis'', JStr ''Know thyself.'')])
     = Some (SynthesisResponse (J (JArr [JStr ''Ancient Philosophers''])) ''Know thyself.'')
   \<and> (get_prop d ''synthesis'' = Some (J (JStr s)) \<and> get_prop d ''reasoning_chain'' = Some Undefined
        \<and> get_prop d ''philosophers'' = Some p
      \<longrightarrow> classify h d = Some (SynthesisResponse
             (if truthy h p then p else J (JArr [JStr ''Ancient Philosophers''])) s))"
proof (intro conjI impI)
  show "classify h (JObj [(''synthesis'', JStr ''Know thyself.'')])
     = Some (SynthesisResponse (J (JArr [JStr ''Ancient Philosophers''])) ''Know thyself.'')"
    by (simp add: classify_def or_js_def)
next
  assume a: "get_prop d ''synthesis'' = Some (J (JStr s)) \<and> get_prop d ''reasoning_chain'' = Some Undefined
        \<and> get_prop d ''philosophers'' = Some p"
  then have g: "get_prop d ''reasoning_chain'' = Some Undefined" "get_prop d ''synthesis'' = Some (J (JStr s))"
      "get_prop d ''philosophers'' = Some p"
    by blast+
  have n: "\<not> (truthy h (Undefined :: 'a jsval) \<and> truthy h (J (JStr s)))" by simp
  show "classify h d = Some (SynthesisResponse
             (if truthy h p then p else J (JArr [JStr ''Ancient Philosophers''])) s)"
    using classify_not_both [OF g(1,2) n] by (simp add: or_js_def g(3))
qed

text \<open>C6, amended, at scenario A.\<close>

theorem plain_synthesis_witness:
  "get_prop scenario_a ''synthesis'' = Some (J (JStr ''Know thyself.''))
   \<and> get_prop scenario_a ''reasoning_chain'' = Some Undefined
   \<and> get_prop scenario_a ''philosophers'' = Some Undefined
   \<and> classify int_host scenario_a
       = Some (SynthesisResponse (J (JArr [JStr ''Ancient Philosophers''])) ''Know thyself.'')"
  using plain_synthesis [of int_host scenario_a "''Know thyself.''" Undefined]
  by (simp add: scenario_a_def)

subsection \<open>Fields that are present but falsy\<close>

text \<open>
  C10, as stated for every documented field, fails for \<open>metacognitive_enhancement\<close>: there
  the code looks at the type, and the empty string is rendered as an empty bullet, not as
  the placeholder of the absent field.
\<close>

theorem falsy_field_counterexample:
  "map_of [(''metacognitive_enhancement'', JStr [] :: int json)] ''metacognitive_enhancement'' = Some (JStr [])
   \<and> \<not> truthy int_host (J (JStr []))
   \<and> metacognitive_enhancement_section int_host (J (JStr [])) [] = Some (''- '' @ nl)
   \<and> metacognitive_enhancement_section int_host Undefined []
       = Some (''- No metacognitive enhancement provided'' @ nl)
   \<and> format_synthesis int_host (JObj [(''metacognitive_enhancement'', JStr [])])
       \<noteq> format_synthesis int_host (JObj [])"
  by (simp add: metacognitive_enhancement_section_def format_synthesis_def or_js_def bullets_def
      joined_section_def dialectical_challenges_section_def nl_def)

text \<open>
  C10, amended. For each of the seven section fields of a perspective entry, and for each
  of the thirteen section fields of a structured synthesis except
  \<open>metacognitive_enhancement\<close> holding the empty string, a value that is present but falsy
  is rendered exactly as the absent field is, that is, by the field's placeholder.
\<close>

theorem falsy_field_is_absent:
  assumes "map_of kvs k = Some v" "\<not> truthy h (J v)"
  shows "(k \<in> set step_sections \<longrightarrow>
            format_step h (JObj kvs) r = format_step h (JObj (without k kvs)) r)
       \<and> (k \<in> set synthesis_sections \<and> (k = ''metacognitive_enhancement'' \<longrightarrow> v \<noteq> JStr []) \<longrightarrow>
            format_synthesis h (JObj kvs) = format_synthesis h (JObj (without k kvs)))"
  using assms falsy_step [of k kvs v h r] falsy_synthesis [of k kvs v h] by blast

text \<open>
  C10, amended, at \<open>core_insight\<close> holding the empty string (rendered
  \<open>No insight provided\<close>) and at \<open>synthesis_quality_score\<close> holding 0.
\<close>

theorem falsy_field_is_absent_witness:
  "map_of [(''philosopher'', JStr ''Socrates''), (''core_insight'', JStr [] :: int json)] ''core_insight''
     = Some (JStr [])
   \<and> \<not> truthy int_host (J (JStr []))
   \<and> ''core_insight'' \<in> set step_sections
   \<and> format_step int_host (JObj [(''philosopher'', JStr ''Socrates''), (''core_insight'', JStr [])]) Map.empty
       = format_step int_host (JObj [(''philosopher'', JStr ''Socrates'')]) Map.empty
   \<and> map_option (\<lambda>m. map_option (take 37) (m ''Socrates''))
        (format_step int_host (JObj [(''philosopher'', JStr ''Socrates''), (''core_insight'', JStr [])]) Map.empty)
       = Some (Some ''**Core Insight**: No insight provided'')
   \<and> map_of [(''synthesis_quality_score'', JNum 0 :: int json)] ''synthesis_quality_score'' = Some (JNum 0)
   \<and> \<not> truthy int_host (J (JNum 0))
   \<and> ''synthesis_quality_score'' \<in> set synthesis_sections
   \<and> format_synthesis int_host (JObj [(''synthesis_quality_score'', JNum 0)])
       = format_synthesis int_host (JObj [])"
  using falsy_field_is_absent [of "[(''philosopher'', JStr ''Socrates''), (''core_insight'', JStr [])]"
      "''core_insight''" "JStr []" int_host Map.empty]
    falsy_field_is_absent [of "[(''synthesis_quality_score'', JNum 0)]"
      "''synthesis_quality_score''" "JNum 0" int_host Map.empty]
  by (simp add: step_sections_def synthesis_sections_def without_def int_host_def
      format_step_def orM_def or_js_def mapped_section_def assign_def nl_def)

end
